theory Spec2Isabelle
  imports Complex_Main "HOL-Library.Sublist"
begin

section \<open>Data model of \<open>src/backend/train.py\<close>\<close>

text \<open>
  The script drives three collaborators: the H2O frame loader and AutoML engine, the MLflow
  tracking store, and the local file system. Their state is gathered in one record
  \<open>world\<close> that every operation receives and returns; an exception is the \<open>Inl\<close> value
  of the result, and the world reached when it was raised is returned with it. The script
  defines no exception of its own: it raises \<open>FileNotFoundError\<close> at line 27, and every other
  error comes out of a call it makes or of an attribute access.
\<close>

datatype error =
    FileNotFoundError     \<comment> \<open>line 27; also \<open>h2o.import_file\<close> on a path with nothing to read\<close>
  | H2OError              \<comment> \<open>an error of H2O's own, raised inside one of its calls\<close>
  | IOError               \<comment> \<open>\<open>open(..., 'w')\<close>, \<open>to_csv\<close>, \<open>log_artifact\<close> on an unusable path\<close>
  | MlflowException       \<comment> \<open>\<open>create_experiment\<close> on a name already registered\<close>
  | NestedRunError        \<comment> \<open>\<open>start_run\<close> while a run is active\<close>
  | AttributeError        \<comment> \<open>attribute access on \<open>None\<close>\<close>
  | TrainingError         \<comment> \<open>raised by \<open>aml.train\<close>\<close>

text \<open>An H2O frame, as far as the script looks at it: the ordered columns with their type.\<close>

type_synonym frame = "(string \<times> string) list"

definition col_names :: "frame \<Rightarrow> string list" where
  "col_names f = map fst f"

definition types :: "frame \<Rightarrow> (string \<times> string) list" where
  "types f = f"

record model =
  model_id :: string
  logloss :: real
  auc :: real

text \<open>A leaderboard: the header and the rows in rank order.\<close>

type_synonym table = "string list \<times> string list list"

record aml =
  leader :: "model option"
  leaderboard :: table    \<comment> \<open>\<open>get_leaderboard(aml, extra_columns='ALL')\<close>\<close>

record policy =
  max_models :: int
  seed :: int
  balance_classes :: bool
  sort_metric :: string
  verbosity :: string
  exclude_algos :: "string list"

datatype content =
    Raw string                             \<comment> \<open>a dataset file, uninterpreted\<close>
  | TypesJson "(string \<times> string) list"     \<comment> \<open>\<open>json.dump(main_frame.types, fp)\<close>\<close>
  | Csv "string list list"                 \<comment> \<open>\<open>to_csv(path, index=False)\<close>: header, then rows\<close>
  | ModelFiles model                       \<comment> \<open>\<open>mlflow.h2o.log_model\<close>\<close>
  | Folder string                          \<comment> \<open>a directory and the data files in it, uninterpreted\<close>

datatype run_status = RUNNING | FINISHED | FAILED

record mlflow_experiment =
  experiment_id :: string
  artifact_location :: string

record run =
  run_id :: string
  run_experiment :: string
  status :: run_status
  artifact_uri :: string
  metrics :: "string \<Rightarrow> real option"
  artifacts :: "string \<Rightarrow> content option"

datatype event =
    MakeDirs string
  | SetTrackingUri string
  | H2OInit
  | ImportFile string
  | WriteFile string
  | AsFactor string
  | CreateExperiment string
  | GetExperimentByName string
  | SetExperiment string
  | StartRun string
  | LogArtifact string string
  | AutoMLTrain policy "string list" string frame
  | LogMetric string real
  | LogModel string
  | GetArtifactUri string
  | ToCsv string
  | EndRun string run_status

text \<open>
  The file system is \<open>files\<close> and \<open>dirs\<close>. \<open>files\<close> gives what can be read at a path: the
  content of a regular file, or a directory with data in it (\<open>h2o.import_file\<close> reads a
  directory as one frame). \<open>dirs\<close> lists the directories that hold nothing to read, among them
  those \<open>os.makedirs\<close> creates. Paths are compared as they are written.
\<close>

record world =
  files :: "string \<Rightarrow> content option"
  dirs :: "string list"
  experiments :: "(string \<times> mlflow_experiment) list"   \<comment> \<open>the registry, by name\<close>
  next_experiment :: nat
  runs :: "run list"
  next_run :: nat
  tracking_uri :: string
  active_experiment :: "string option"
  active_run :: "string option"
  trace :: "event list"

text \<open>What the script cannot decide: how H2O parses a file, what AutoML returns, which
  paths the process may write, and the error H2O raises when a column is selected that the
  frame does not have (the script has no check of the target and names no error for it).\<close>

record env =
  parse :: "content \<Rightarrow> frame"
  automl :: "policy \<Rightarrow> string list \<Rightarrow> string \<Rightarrow> frame \<Rightarrow> error + aml"
  writable :: "string \<Rightarrow> bool"
  absent_column :: "string \<Rightarrow> frame \<Rightarrow> error"

type_synonym 'a io = "world \<Rightarrow> (error + 'a) \<times> world"

definition return :: "'a \<Rightarrow> 'a io" where
  "return a w = (Inr a, w)"

definition raise :: "error \<Rightarrow> 'a io" where
  "raise e w = (Inl e, w)"

definition bind :: "'a io \<Rightarrow> ('a \<Rightarrow> 'b io) \<Rightarrow> 'b io" where
  "bind m f w = (case m w of (Inl e, w') \<Rightarrow> (Inl e, w') | (Inr a, w') \<Rightarrow> f a w')"

text \<open>\<open>try: m  except: h\<close> with a bare \<open>except\<close>: every exception of \<open>m\<close> runs \<open>h\<close>.\<close>

definition try_except :: "'a io \<Rightarrow> 'a io \<Rightarrow> 'a io" where
  "try_except m h w = (case m w of (Inl e, w') \<Rightarrow> h w' | (Inr a, w') \<Rightarrow> (Inr a, w'))"

definition emit :: "event \<Rightarrow> world \<Rightarrow> world" where
  "emit e w = w\<lparr>trace := trace w @ [e]\<rparr>"

section \<open>Strings and paths\<close>

definition digit :: "nat \<Rightarrow> char" where
  "digit n = ''0123456789'' ! n"

fun str_nat :: "nat \<Rightarrow> string" where
  "str_nat n = (if n < 10 then [digit n] else str_nat (n div 10) @ [digit (n mod 10)])"

declare str_nat.simps [simp del]

text \<open>\<open>s.replace(old, new)\<close> for a non-empty \<open>old\<close>: every occurrence, left to right.\<close>

fun replace :: "string \<Rightarrow> string \<Rightarrow> string \<Rightarrow> string" where
  "replace old new [] = []"
| "replace old new (c # cs) =
     (if old \<noteq> [] \<and> prefix old (c # cs)
      then new @ replace old new (drop (length old - 1) cs)
      else c # replace old new cs)"

text \<open>\<open>os.path.dirname\<close>, \<open>os.path.basename\<close> and \<open>os.path.join\<close> of \<open>posixpath\<close>.\<close>

definition path_head :: "string \<Rightarrow> string" where
  "path_head p = rev (dropWhile (\<lambda>c. c \<noteq> CHR ''/'') (rev p))"

definition rstrip_slash :: "string \<Rightarrow> string" where
  "rstrip_slash s = rev (dropWhile (\<lambda>c. c = CHR ''/'') (rev s))"

definition dirname :: "string \<Rightarrow> string" where
  "dirname p =
     (let head = path_head p
      in if head \<noteq> [] \<and> head \<noteq> replicate (length head) CHR ''/'' then rstrip_slash head
         else head)"

definition basename :: "string \<Rightarrow> string" where
  "basename p = rev (takeWhile (\<lambda>c. c \<noteq> CHR ''/'') (rev p))"

definition path_join :: "string \<Rightarrow> string \<Rightarrow> string" where
  "path_join a b =
     (if prefix ''/'' b then b
      else if a = [] \<or> suffix ''/'' a then a @ b
      else a @ ''/'' @ b)"

section \<open>The collaborators' operations\<close>

text \<open>\<open>os.path.exists(p)\<close> is true of a regular file and of a directory alike.\<close>

definition exists_at :: "world \<Rightarrow> string \<Rightarrow> bool" where
  "exists_at w p \<longleftrightarrow> files w p \<noteq> None \<or> p \<in> set (dirs w)"

definition path_exists :: "string \<Rightarrow> bool io" where
  "path_exists p w = (Inr (exists_at w p), w)"

text \<open>
  \<open>os.makedirs(p, exist_ok=True)\<close> creates the directory \<open>p\<close> and every directory above it
  that is missing: \<open>dir_prefixes [] p\<close> are the paths of \<open>p\<close> and of the directories above it,
  the outermost first.
\<close>

fun dir_prefixes :: "string \<Rightarrow> string \<Rightarrow> string list" where
  "dir_prefixes acc [] = [acc]"
| "dir_prefixes acc (c # cs) =
     (if c = CHR ''/'' \<and> rstrip_slash acc \<noteq> [] then [acc] else []) @ dir_prefixes (acc @ [c]) cs"

declare dir_prefixes.simps [simp del]

definition makedirs :: "string \<Rightarrow> unit io" where
  "makedirs p w =
     (Inr (), emit (MakeDirs p) (w\<lparr>dirs := dirs w @ [d \<leftarrow> dir_prefixes [] p. \<not> exists_at w d]\<rparr>))"

text \<open>\<open>mlflow.set_tracking_uri\<close> and \<open>h2o.init\<close>.\<close>

definition set_tracking_uri :: "string \<Rightarrow> unit io" where
  "set_tracking_uri u w = (Inr (), emit (SetTrackingUri u) (w\<lparr>tracking_uri := u\<rparr>))"

definition h2o_init :: "unit io" where
  "h2o_init w = (Inr (), emit H2OInit w)"

text \<open>\<open>h2o.import_file(path=p)\<close>: the frame H2O parses from what is at \<open>p\<close>; with nothing to
  read there the import fails.\<close>

definition import_file :: "env \<Rightarrow> string \<Rightarrow> frame io" where
  "import_file env p w =
     (case files w p of
        None \<Rightarrow> (Inl FileNotFoundError, emit (ImportFile p) w)
      | Some c \<Rightarrow> (Inr (parse env c), emit (ImportFile p) w))"

text \<open>\<open>with open(p, 'w') as fp: json.dump(d, fp)\<close>\<close>

definition json_dump :: "env \<Rightarrow> string \<Rightarrow> (string \<times> string) list \<Rightarrow> unit io" where
  "json_dump env p d w =
     (if writable env p
      then (Inr (), emit (WriteFile p) (w\<lparr>files := (files w)(p \<mapsto> TypesJson d)\<rparr>))
      else (Inl IOError, emit (WriteFile p) w))"

text \<open>\<open>df.to_csv(p, index=False)\<close>: the header row, then the rows in their order.\<close>

definition to_csv :: "env \<Rightarrow> string \<Rightarrow> table \<Rightarrow> unit io" where
  "to_csv env p t w =
     (if writable env p
      then (Inr (), emit (ToCsv p) (w\<lparr>files := (files w)(p \<mapsto> Csv (fst t # snd t))\<rparr>))
      else (Inl IOError, emit (ToCsv p) w))"

text \<open>
  \<open>main_frame[target] = main_frame[target].asfactor()\<close>: the column becomes categorical
  (H2O's type \<open>enum\<close>), the others are untouched. For a name that is not a column of the
  frame H2O has nothing to select, and the statement ends with the error H2O raises.
\<close>

definition asfactor :: "env \<Rightarrow> string \<Rightarrow> frame \<Rightarrow> error + frame" where
  "asfactor env target f =
     (if target \<in> set (col_names f)
      then Inr (map (\<lambda>(n, t). if n = target then (n, ''enum'') else (n, t)) f)
      else Inl (absent_column env target f))"

definition set_factor :: "env \<Rightarrow> string \<Rightarrow> frame \<Rightarrow> frame io" where
  "set_factor env target f w = (asfactor env target f, emit (AsFactor target) w)"

definition automl_train :: "env \<Rightarrow> policy \<Rightarrow> string list \<Rightarrow> string \<Rightarrow> frame \<Rightarrow> aml io" where
  "automl_train env pol x y f w = (automl env pol x y f, emit (AutoMLTrain pol x y f) w)"

subsection \<open>The tracking store\<close>

text \<open>
  \<open>mlflow.create_experiment\<close> registers a name once and raises on a name already there;
  a new experiment keeps its artifacts under the tracking location.
\<close>

definition create_experiment :: "string \<Rightarrow> string io" where
  "create_experiment name w =
     (case map_of (experiments w) name of
        Some e \<Rightarrow> (Inl MlflowException, emit (CreateExperiment name) w)
      | None \<Rightarrow>
          (let eid = str_nat (next_experiment w);
               e = \<lparr>experiment_id = eid, artifact_location = tracking_uri w @ ''/'' @ eid\<rparr>
           in (Inr eid, emit (CreateExperiment name)
                 (w\<lparr>experiments := experiments w @ [(name, e)],
                    next_experiment := Suc (next_experiment w)\<rparr>))))"

definition get_experiment_by_name :: "string \<Rightarrow> mlflow_experiment option io" where
  "get_experiment_by_name name w =
     (Inr (map_of (experiments w) name), emit (GetExperimentByName name) w)"

text \<open>\<open>mlflow.set_experiment\<close> makes the named experiment the active one, creating it when
  the name is new.\<close>

definition set_experiment :: "string \<Rightarrow> unit io" where
  "set_experiment name w =
     (case map_of (experiments w) name of
        Some e \<Rightarrow> (Inr (), emit (SetExperiment name) (w\<lparr>active_experiment := Some (experiment_id e)\<rparr>))
      | None \<Rightarrow>
          (let eid = str_nat (next_experiment w);
               e = \<lparr>experiment_id = eid, artifact_location = tracking_uri w @ ''/'' @ eid\<rparr>
           in (Inr (), emit (SetExperiment name)
                 (w\<lparr>experiments := experiments w @ [(name, e)],
                    next_experiment := Suc (next_experiment w),
                    active_experiment := Some eid\<rparr>))))"

text \<open>
  \<open>mlflow.start_run()\<close> refuses a second active run; otherwise it creates a run of the
  active experiment (the default experiment \<open>0\<close> when none was set), whose artifacts live
  under the experiment's artifact location.
\<close>

definition start_run :: "string io" where
  "start_run w =
     (case active_run w of
        Some r \<Rightarrow> (Inl NestedRunError, w)
      | None \<Rightarrow>
          (let eid = (case active_experiment w of None \<Rightarrow> ''0'' | Some e \<Rightarrow> e)
           in case find (\<lambda>e. experiment_id e = eid) (map snd (experiments w)) of
                None \<Rightarrow> (Inl MlflowException, w)
              | Some e \<Rightarrow>
                  (let rid = str_nat (next_run w);
                       r = \<lparr>run_id = rid, run_experiment = eid, status = RUNNING,
                            artifact_uri = artifact_location e @ ''/'' @ rid @ ''/artifacts'',
                            metrics = Map.empty, artifacts = Map.empty\<rparr>
                   in (Inr rid, emit (StartRun rid)
                         (w\<lparr>runs := runs w @ [r], next_run := Suc (next_run w),
                            active_run := Some rid\<rparr>)))))"

definition update_run :: "string \<Rightarrow> (run \<Rightarrow> run) \<Rightarrow> world \<Rightarrow> world" where
  "update_run rid f w = w\<lparr>runs := map (\<lambda>r. if run_id r = rid then f r else r) (runs w)\<rparr>"

text \<open>The logging calls of the fluent API act on the active run and start one when there
  is none.\<close>

definition current_run :: "string io" where
  "current_run w = (case active_run w of Some rid \<Rightarrow> (Inr rid, w) | None \<Rightarrow> start_run w)"

definition log_artifact :: "string \<Rightarrow> string \<Rightarrow> unit io" where
  "log_artifact local_path artifact_path =
     bind current_run (\<lambda>rid w.
       case files w local_path of
         None \<Rightarrow> (Inl IOError, emit (LogArtifact local_path artifact_path) w)
       | Some c \<Rightarrow>
           (Inr (), emit (LogArtifact local_path artifact_path)
              (update_run rid
                 (\<lambda>r. r\<lparr>artifacts := (artifacts r)(path_join artifact_path (basename local_path) \<mapsto> c)\<rparr>)
                 w)))"

definition log_metric :: "string \<Rightarrow> real \<Rightarrow> unit io" where
  "log_metric k v =
     bind current_run (\<lambda>rid w.
       (Inr (), emit (LogMetric k v) (update_run rid (\<lambda>r. r\<lparr>metrics := (metrics r)(k \<mapsto> v)\<rparr>) w)))"

definition log_model :: "model \<Rightarrow> string \<Rightarrow> unit io" where
  "log_model m artifact_path =
     bind current_run (\<lambda>rid w.
       (Inr (), emit (LogModel artifact_path)
          (update_run rid (\<lambda>r. r\<lparr>artifacts := (artifacts r)(artifact_path \<mapsto> ModelFiles m)\<rparr>) w)))"

text \<open>The store's answer for the artifact root of a run.\<close>

definition run_artifact_uri :: "world \<Rightarrow> string \<Rightarrow> string option" where
  "run_artifact_uri w rid = map_option artifact_uri (find (\<lambda>r. run_id r = rid) (runs w))"

definition get_artifact_uri :: "string \<Rightarrow> string io" where
  "get_artifact_uri artifact_path =
     bind current_run (\<lambda>rid w.
       case run_artifact_uri w rid of
         None \<Rightarrow> (Inl MlflowException, emit (GetArtifactUri artifact_path) w)
       | Some u \<Rightarrow> (Inr (u @ ''/'' @ artifact_path), emit (GetArtifactUri artifact_path) w))"

text \<open>\<open>mlflow.active_run().info.run_id\<close>\<close>

definition active_run_id :: "string io" where
  "active_run_id w = (case active_run w of None \<Rightarrow> (Inl AttributeError, w) | Some rid \<Rightarrow> (Inr rid, w))"

definition end_run :: "run_status \<Rightarrow> world \<Rightarrow> world" where
  "end_run st w =
     (case active_run w of
        None \<Rightarrow> w
      | Some rid \<Rightarrow> emit (EndRun rid st) ((update_run rid (\<lambda>r. r\<lparr>status := st\<rparr>) w)\<lparr>active_run := None\<rparr>))"

text \<open>
  \<open>with mlflow.start_run() as run: body\<close>: leaving the block ends the run, as \<open>FINISHED\<close>
  when the body returned and as \<open>FAILED\<close> when it raised; the exception then propagates.
\<close>

definition with_run :: "(string \<Rightarrow> 'a io) \<Rightarrow> 'a io" where
  "with_run body w =
     (case start_run w of
        (Inl e, w1) \<Rightarrow> (Inl e, w1)
      | (Inr rid, w1) \<Rightarrow>
          (case body rid w1 of
             (Inl e, w2) \<Rightarrow> (Inl e, end_run FAILED w2)
           | (Inr a, w2) \<Rightarrow> (Inr a, end_run FINISHED w2)))"

section \<open>\<open>train\<close> (lines 16 to 88)\<close>

definition mlruns_path :: string where
  "mlruns_path = ''/app/backend/mlruns''"

text \<open>The constructor call \<open>H2OAutoML(...)\<close> of lines 58 to 65 and 165 to 172.\<close>

definition automl_policy :: "int \<Rightarrow> policy" where
  "automl_policy models =
     \<lparr>max_models = models, seed = 42, balance_classes = True, sort_metric = ''logloss'',
      verbosity = ''info'', exclude_algos = [''GLM'', ''DRF'']\<rparr>"

text \<open>Lines 40 to 47.\<close>

definition train_experiment_setup :: "string \<Rightarrow> string io" where
  "train_experiment_setup experiment_name =
     bind (try_except (create_experiment experiment_name)
             (bind (get_experiment_by_name experiment_name) (\<lambda>experiment.
                case experiment of
                  None \<Rightarrow> raise AttributeError
                | Some e \<Rightarrow> return (experiment_id e))))
       (\<lambda>eid. bind (set_experiment experiment_name) (\<lambda>_. return eid))"

text \<open>Lines 76 to 88.\<close>

definition save_leaderboard :: "env \<Rightarrow> aml \<Rightarrow> unit io" where
  "save_leaderboard env a =
     bind (get_artifact_uri ''model'') (\<lambda>model_uri.
       if prefix ''file:/'' model_uri
       then (let model_path = replace ''file:'' [] model_uri;
                 leaderboard_path = path_join model_path ''leaderboard.csv''
             in bind (makedirs model_path) (\<lambda>_. to_csv env leaderboard_path (leaderboard a)))
       else return ())"

text \<open>The body of the \<open>with\<close> block, lines 51 to 88. \<open>aml.leader\<close> is \<open>None\<close> when AutoML
  built no model; its first use, \<open>aml.leader.logloss()\<close>, then raises.\<close>

definition train_run ::
  "env \<Rightarrow> string \<Rightarrow> int \<Rightarrow> string \<Rightarrow> string \<Rightarrow> string list \<Rightarrow> frame \<Rightarrow> string \<Rightarrow> unit io" where
  "train_run env target models file_path col_type_path predictors main_frame rid =
     bind (log_artifact file_path ''input_data'') (\<lambda>_.
     bind (log_artifact col_type_path ''input_data'') (\<lambda>_.
     bind (automl_train env (automl_policy models) predictors target main_frame) (\<lambda>a.
       case leader a of
         None \<Rightarrow> raise AttributeError
       | Some m \<Rightarrow>
           bind (log_metric ''log_loss'' (logloss m)) (\<lambda>_.
           bind (log_metric ''AUC'' (auc m)) (\<lambda>_.
           bind (log_model m ''model'') (\<lambda>_.
           save_leaderboard env a))))))"

text \<open>Lines 17 to 37: tracking location, H2O, the training frame, the column types
  written beside the input file, the predictors and the categorical target. The result is
  \<open>(col_type_path, predictors, main_frame)\<close>.\<close>

definition train_load :: "env \<Rightarrow> string \<Rightarrow> string \<Rightarrow> (string \<times> string list \<times> frame) io" where
  "train_load env target file_path =
     bind (makedirs mlruns_path) (\<lambda>_.
     bind (set_tracking_uri (''file:'' @ mlruns_path)) (\<lambda>_.
     bind h2o_init (\<lambda>_.
     bind (path_exists file_path) (\<lambda>ex.
       if \<not> ex then raise FileNotFoundError
       else
         bind (import_file env file_path) (\<lambda>main_frame.
         let col_type_path = path_join (dirname file_path) ''train_col_types.json'' in
         bind (json_dump env col_type_path (types main_frame)) (\<lambda>_.
         let predictors = [n \<leftarrow> col_names main_frame. n \<noteq> target] in
         bind (set_factor env target main_frame) (\<lambda>main_frame'.
         return (col_type_path, predictors, main_frame'))))))))"

definition train :: "env \<Rightarrow> string \<Rightarrow> string \<Rightarrow> int \<Rightarrow> string \<Rightarrow> unit io" where
  "train env experiment_name target models file_path =
     bind (train_load env target file_path) (\<lambda>(col_type_path, predictors, main_frame).
     bind (train_experiment_setup experiment_name) (\<lambda>eid.
     with_run (train_run env target models file_path col_type_path predictors main_frame)))"

section \<open>\<open>main\<close> (lines 120 to 195)\<close>

definition train_csv :: string where
  "train_csv = ''data/processed/train.csv''"

definition train_col_types_json :: string where
  "train_col_types_json = ''data/processed/train_col_types.json''"

text \<open>Lines 134 to 140; the variable \<open>experiment\<close> is what the lookup returned.\<close>

definition main_experiment_setup :: "string \<Rightarrow> mlflow_experiment option io" where
  "main_experiment_setup experiment_name =
     bind (try_except
             (bind (create_experiment experiment_name) (\<lambda>eid. get_experiment_by_name experiment_name))
             (get_experiment_by_name experiment_name))
       (\<lambda>experiment. bind (set_experiment experiment_name) (\<lambda>_. return experiment))"

text \<open>The body of the \<open>with\<close> block, lines 165 to 195.\<close>

definition main_run ::
  "env \<Rightarrow> string \<Rightarrow> int \<Rightarrow> string \<Rightarrow> string list \<Rightarrow> frame \<Rightarrow> string \<Rightarrow> unit io" where
  "main_run env target models exp_id predictors main_frame rid0 =
     bind (automl_train env (automl_policy models) predictors target main_frame) (\<lambda>a.
       case leader a of
         None \<Rightarrow> raise AttributeError
       | Some m \<Rightarrow>
           bind (log_metric ''log_loss'' (logloss m)) (\<lambda>_.
           bind (log_metric ''AUC'' (auc m)) (\<lambda>_.
           bind (log_model m ''model'') (\<lambda>_.
           bind (get_artifact_uri ''model'') (\<lambda>model_uri.
           bind active_run_id (\<lambda>rid.
             let lb_path = ''mlruns/'' @ exp_id @ ''/'' @ rid @ ''/artifacts/model/leaderboard.csv''
             in to_csv env lb_path (leaderboard a)))))))"

text \<open>Lines 150 to 161: the frame of the fixed training file, its column types, the
  predictors and the categorical target. The result is \<open>(predictors, main_frame)\<close>.\<close>

definition main_load :: "env \<Rightarrow> string \<Rightarrow> (string list \<times> frame) io" where
  "main_load env target =
     bind (import_file env train_csv) (\<lambda>main_frame.
     bind (json_dump env train_col_types_json (types main_frame)) (\<lambda>_.
     let predictors = [n \<leftarrow> col_names main_frame. n \<noteq> target] in
     bind (set_factor env target main_frame) (\<lambda>main_frame'.
     return (predictors, main_frame'))))"

text \<open>\<open>args.name\<close>, \<open>args.target\<close> and \<open>args.models\<close> are the parameters. Line 144 is the
  first use of \<open>experiment\<close>.\<close>

definition main :: "env \<Rightarrow> string \<Rightarrow> string \<Rightarrow> int \<Rightarrow> unit io" where
  "main env experiment_name target models =
     bind h2o_init (\<lambda>_.
     bind (main_experiment_setup experiment_name) (\<lambda>experiment.
       case experiment of
         None \<Rightarrow> raise AttributeError
       | Some e \<Rightarrow>
           bind (main_load env target) (\<lambda>(predictors, main_frame).
           with_run (main_run env target models (experiment_id e) predictors main_frame))))"

section \<open>Observations on an execution\<close>

text \<open>The calls an operation added to the trace.\<close>

definition new_events :: "world \<Rightarrow> world \<Rightarrow> event list" where
  "new_events w w' = drop (length (trace w)) (trace w')"

fun is_start_run :: "event \<Rightarrow> bool" where
  "is_start_run (StartRun r) = True"
| "is_start_run e = False"

fun is_end_run :: "event \<Rightarrow> bool" where
  "is_end_run (EndRun r s) = True"
| "is_end_run e = False"

fun is_engine_call :: "event \<Rightarrow> bool" where
  "is_engine_call (AutoMLTrain p x y f) = True"
| "is_engine_call e = False"

fun is_csv_write :: "event \<Rightarrow> bool" where
  "is_csv_write (ToCsv p) = True"
| "is_csv_write e = False"

text \<open>The status a run must end with, given how the operation ended.\<close>

definition outcome_status :: "error + 'a \<Rightarrow> run_status" where
  "outcome_status r = (case r of Inl e \<Rightarrow> FAILED | Inr a \<Rightarrow> FINISHED)"

text \<open>A new process on the same persisted store: the tracking location is the default
  \<open>u\<close> again and no experiment or run is active.\<close>

definition restart :: "string \<Rightarrow> world \<Rightarrow> world" where
  "restart u w = w\<lparr>tracking_uri := u, active_experiment := None, active_run := None\<rparr>"

section \<open>A concrete setting\<close>

text \<open>A store with no experiment and no run, the training file at both places the script
  reads and the two directories they are in (under both spellings), three columns, and an
  AutoML result of two ranked models.\<close>

definition example_world :: world where
  "example_world =
     \<lparr>files = [''data/train.csv'' \<mapsto> Raw ''rows'', ''data/processed/train.csv'' \<mapsto> Raw ''rows'',
               ''data'' \<mapsto> Folder ''train.csv'', ''data/'' \<mapsto> Folder ''train.csv'',
               ''data/processed'' \<mapsto> Folder ''train.csv'',
               ''data/processed/'' \<mapsto> Folder ''train.csv''],
      dirs = [],
      experiments = [], next_experiment = 0, runs = [], next_run = 0,
      tracking_uri = ''file:///cwd/mlruns'', active_experiment = None, active_run = None,
      trace = []\<rparr>"

definition example_aml :: aml where
  "example_aml =
     \<lparr>leader = Some \<lparr>model_id = ''GBM_1'', logloss = 1 / 4, auc = 3 / 4\<rparr>,
      leaderboard = ([''model_id'', ''logloss''], [[''GBM_1'', ''0.25''], [''XGB_1'', ''0.5'']])\<rparr>"

definition example_env :: env where
  "example_env =
     \<lparr>parse = (\<lambda>c. [(''age'', ''int''), (''income'', ''real''), (''claim'', ''int'')]),
      automl = (\<lambda>p x y f. Inr example_aml),
      writable = (\<lambda>p. True),
      absent_column = (\<lambda>t f. H2OError)\<rparr>"

text \<open>The same store with an experiment registered earlier whose artifacts are kept at
  \<open>loc\<close>.\<close>

definition registered_world :: "string \<Rightarrow> world" where
  "registered_world loc =
     example_world\<lparr>experiments := [(''exp'', \<lparr>experiment_id = ''7'', artifact_location = loc\<rparr>)],
                   next_experiment := 8\<rparr>"

text \<open>The same setting with an AutoML that fails.\<close>

definition failing_env :: env where
  "failing_env = example_env\<lparr>automl := (\<lambda>p x y f. Inl TrainingError)\<rparr>"

text \<open>The same setting in which the process may write nowhere.\<close>

definition readonly_env :: env where
  "readonly_env = example_env\<lparr>writable := (\<lambda>p. False)\<rparr>"

section \<open>Basic facts\<close>

lemma emit_simps [simp]:
  "trace (emit e w) = trace w @ [e]" "files (emit e w) = files w" "runs (emit e w) = runs w"
  "experiments (emit e w) = experiments w" "active_run (emit e w) = active_run w"
  "active_experiment (emit e w) = active_experiment w" "next_run (emit e w) = next_run w"
  "next_experiment (emit e w) = next_experiment w" "tracking_uri (emit e w) = tracking_uri w"
  "dirs (emit e w) = dirs w"
  by (simp_all add: emit_def)

lemma update_run_simps [simp]:
  "trace (update_run rid f w) = trace w" "files (update_run rid f w) = files w"
  "runs (update_run rid f w) = map (\<lambda>r. if run_id r = rid then f r else r) (runs w)"
  "experiments (update_run rid f w) = experiments w"
  "active_run (update_run rid f w) = active_run w"
  "active_experiment (update_run rid f w) = active_experiment w"
  "next_run (update_run rid f w) = next_run w" "dirs (update_run rid f w) = dirs w"
  by (simp_all add: update_run_def)

lemma exists_at_simps [simp]:
  "exists_at (emit e w) p = exists_at w p"
  "exists_at (w\<lparr>tracking_uri := u\<rparr>) p = exists_at w p"
  "files w p = Some c \<Longrightarrow> exists_at w p"
  by (simp_all add: exists_at_def)

lemma new_events_append [simp]: "trace w' = trace w @ es \<Longrightarrow> new_events w w' = es"
  by (simp add: new_events_def)

lemma asfactor_names: "asfactor env t f = Inr f' \<Longrightarrow> col_names f' = col_names f"
  by (auto simp add: asfactor_def col_names_def split: if_splits prod.splits)

lemma map_of_enum:
  "t \<in> set (map fst f) \<Longrightarrow>
   map_of (map (\<lambda>(n, ty). if n = t then (n, ''enum'') else (n, ty)) f) t = Some ''enum''"
  by (induction f) (auto split: prod.splits)

lemma asfactor_enum:
  assumes "asfactor env t f = Inr f'"
  shows "map_of f' t = Some ''enum''"
proof -
  from assms have "t \<in> set (map fst f)"
    and "f' = map (\<lambda>(n, ty). if n = t then (n, ''enum'') else (n, ty)) f"
    by (auto simp add: asfactor_def col_names_def split: if_splits)
  then show ?thesis
    by (simp only: map_of_enum)
qed

lemma asfactor_error:
  "asfactor env t f = Inl e \<Longrightarrow> e = absent_column env t f \<and> t \<notin> set (col_names f)"
  by (auto simp add: asfactor_def split: if_splits)

subsection \<open>Logging with an active run\<close>

lemma current_run_active: "active_run w = Some rid \<Longrightarrow> current_run w = (Inr rid, w)"
  by (simp add: current_run_def)

lemma log_artifact_active:
  "active_run w = Some rid \<Longrightarrow> log_artifact lp ap w =
     (case files w lp of
         None \<Rightarrow> (Inl IOError, emit (LogArtifact lp ap) w)
       | Some c \<Rightarrow>
           (Inr (), emit (LogArtifact lp ap)
              (update_run rid
                 (\<lambda>r. r\<lparr>artifacts := (artifacts r)(path_join ap (basename lp) \<mapsto> c)\<rparr>) w)))"
  by (simp add: log_artifact_def bind_def current_run_active)

lemma log_metric_active:
  "active_run w = Some rid \<Longrightarrow> log_metric k v w =
     (Inr (), emit (LogMetric k v) (update_run rid (\<lambda>r. r\<lparr>metrics := (metrics r)(k \<mapsto> v)\<rparr>) w))"
  by (simp add: log_metric_def bind_def current_run_active)

lemma log_model_active:
  "active_run w = Some rid \<Longrightarrow> log_model m ap w =
     (Inr (), emit (LogModel ap)
        (update_run rid (\<lambda>r. r\<lparr>artifacts := (artifacts r)(ap \<mapsto> ModelFiles m)\<rparr>) w))"
  by (simp add: log_model_def bind_def current_run_active)

lemma get_artifact_uri_active:
  "active_run w = Some rid \<Longrightarrow> get_artifact_uri ap w =
     (case run_artifact_uri w rid of
         None \<Rightarrow> (Inl MlflowException, emit (GetArtifactUri ap) w)
       | Some u \<Rightarrow> (Inr (u @ ''/'' @ ap), emit (GetArtifactUri ap) w))"
  by (simp add: get_artifact_uri_def bind_def current_run_active)

lemmas active_simps =
  log_artifact_active log_metric_active log_model_active get_artifact_uri_active

lemma find_map_keep:
  "(\<And>r. P (g r) = P r) \<Longrightarrow> find P (map g rs) = map_option g (find P rs)"
  by (induction rs) auto

lemma run_artifact_uri_emit [simp]: "run_artifact_uri (emit e w) rid = run_artifact_uri w rid"
  by (simp add: run_artifact_uri_def)

lemma run_artifact_uri_dirs [simp]: "run_artifact_uri (w\<lparr>dirs := ds\<rparr>) rid = run_artifact_uri w rid"
  by (simp add: run_artifact_uri_def)

lemma run_artifact_uri_update:
  assumes "\<And>r. run_id (f r) = run_id r" "\<And>r. artifact_uri (f r) = artifact_uri r"
  shows "run_artifact_uri (update_run rid' f w) rid = run_artifact_uri w rid"
proof -
  let ?g = "\<lambda>r. if run_id r = rid' then f r else r"
  have "find (\<lambda>r. run_id r = rid) (map ?g (runs w)) = map_option ?g (find (\<lambda>r. run_id r = rid) (runs w))"
    by (rule find_map_keep) (simp add: assms)
  then show ?thesis
    by (cases "find (\<lambda>r. run_id r = rid) (runs w)") (simp_all add: run_artifact_uri_def assms)
qed

lemma run_artifact_uri_log [simp]:
  "run_artifact_uri (update_run rid' (\<lambda>r. r\<lparr>artifacts := a r\<rparr>) w) rid = run_artifact_uri w rid"
  "run_artifact_uri (update_run rid' (\<lambda>r. r\<lparr>metrics := m r\<rparr>) w) rid = run_artifact_uri w rid"
  "run_artifact_uri (update_run rid' (\<lambda>r. r\<lparr>status := s\<rparr>) w) rid = run_artifact_uri w rid"
  by (simp_all add: run_artifact_uri_update)

subsection \<open>Experiment set-up\<close>

lemmas io_defs = bind_def return_def raise_def try_except_def

lemmas op_defs = makedirs_def set_tracking_uri_def h2o_init_def path_exists_def import_file_def
  json_dump_def set_factor_def create_experiment_def get_experiment_by_name_def
  set_experiment_def

lemma train_experiment_setup_result:
  "\<exists>e w'. train_experiment_setup n w = (Inr (experiment_id e), w') \<and>
      map_of (experiments w') n = Some e \<and>
      active_experiment w' = Some (experiment_id e) \<and>
      runs w' = runs w \<and> files w' = files w \<and> active_run w' = active_run w \<and>
      next_run w' = next_run w \<and>
      trace w' = trace w @ (if map_of (experiments w) n = None
                            then [CreateExperiment n, SetExperiment n]
                            else [CreateExperiment n, GetExperimentByName n, SetExperiment n]) \<and>
      experiments w' = (if map_of (experiments w) n = None
                        then experiments w @ [(n, e)] else experiments w)"
  by (cases "map_of (experiments w) n")
     (simp_all add: train_experiment_setup_def io_defs op_defs Let_def map_add_def)

lemma main_experiment_setup_result:
  "\<exists>e w'. main_experiment_setup n w = (Inr (Some e), w') \<and>
      map_of (experiments w') n = Some e \<and>
      active_experiment w' = Some (experiment_id e) \<and>
      runs w' = runs w \<and> files w' = files w \<and> active_run w' = active_run w \<and>
      next_run w' = next_run w \<and>
      trace w' = trace w @ [CreateExperiment n, GetExperimentByName n, SetExperiment n] \<and>
      experiments w' = (if map_of (experiments w) n = None
                        then experiments w @ [(n, e)] else experiments w)"
  by (cases "map_of (experiments w) n")
     (simp_all add: main_experiment_setup_def io_defs op_defs Let_def map_add_def)

lemma train_experiment_setup_fresh:
  "map_of (experiments w) n = None \<Longrightarrow>
   fst (train_experiment_setup n w) = Inr (str_nat (next_experiment w))"
  by (simp add: train_experiment_setup_def io_defs op_defs Let_def map_add_def)

lemma main_experiment_setup_fresh:
  "map_of (experiments w) n = None \<Longrightarrow>
   fst (main_experiment_setup n w) =
     Inr (Some \<lparr>experiment_id = str_nat (next_experiment w),
                 artifact_location = tracking_uri w @ ''/'' @ str_nat (next_experiment w)\<rparr>)"
  by (simp add: main_experiment_setup_def io_defs op_defs Let_def map_add_def)

subsection \<open>Sequencing\<close>

lemma bind_Inl: "m w = (Inl e, w') \<Longrightarrow> bind m f w = (Inl e, w')"
  by (simp add: bind_def)

lemma bind_Inr: "m w = (Inr a, w') \<Longrightarrow> bind m f w = f a w'"
  by (simp add: bind_def)

subsection \<open>Loading the frame\<close>

text \<open>Line 26 sees the file system as line 19 has left it.\<close>

lemma train_load_missing:
  assumes "files w fp = None"
  shows "\<exists>w'. train_load env t fp w = (Inl FileNotFoundError, w') \<and>
           trace w' = trace w @ [MakeDirs mlruns_path, SetTrackingUri (''file:'' @ mlruns_path), H2OInit] @
                        (if exists_at (snd (makedirs mlruns_path w)) fp then [ImportFile fp] else []) \<and>
           files w' = files w \<and> experiments w' = experiments w \<and> runs w' = runs w \<and>
           next_experiment w' = next_experiment w \<and> active_run w' = active_run w"
  using assms by (simp add: train_load_def io_defs op_defs exists_at_def)

lemma train_load_unwritable:
  assumes "files w fp = Some c" "\<not> writable env (path_join (dirname fp) ''train_col_types.json'')"
  shows "\<exists>w'. train_load env t fp w = (Inl IOError, w') \<and>
           trace w' = trace w @ [MakeDirs mlruns_path, SetTrackingUri (''file:'' @ mlruns_path), H2OInit,
                                 ImportFile fp, WriteFile (path_join (dirname fp) ''train_col_types.json'')] \<and>
           files w' = files w \<and> experiments w' = experiments w \<and> runs w' = runs w \<and>
           active_run w' = active_run w"
  using assms by (simp add: train_load_def io_defs op_defs Let_def)

lemma train_load_bad_target:
  assumes "files w fp = Some c" "writable env (path_join (dirname fp) ''train_col_types.json'')"
    and "asfactor env t (parse env c) = Inl e"
  shows "\<exists>w'. train_load env t fp w = (Inl e, w') \<and>
           trace w' = trace w @ [MakeDirs mlruns_path, SetTrackingUri (''file:'' @ mlruns_path), H2OInit,
                                 ImportFile fp, WriteFile (path_join (dirname fp) ''train_col_types.json''),
                                 AsFactor t] \<and>
           files w' = (files w)(path_join (dirname fp) ''train_col_types.json'' \<mapsto> TypesJson (types (parse env c))) \<and>
           experiments w' = experiments w \<and> runs w' = runs w \<and> active_run w' = active_run w"
  using assms by (simp add: train_load_def io_defs op_defs Let_def)

lemma train_load_ok:
  assumes "files w fp = Some c" "writable env (path_join (dirname fp) ''train_col_types.json'')"
    and "asfactor env t (parse env c) = Inr f'"
  shows "\<exists>w'. train_load env t fp w =
             (Inr (path_join (dirname fp) ''train_col_types.json'',
                   [n \<leftarrow> col_names (parse env c). n \<noteq> t], f'), w') \<and>
           trace w' = trace w @ [MakeDirs mlruns_path, SetTrackingUri (''file:'' @ mlruns_path), H2OInit,
                                 ImportFile fp, WriteFile (path_join (dirname fp) ''train_col_types.json''),
                                 AsFactor t] \<and>
           files w' = (files w)(path_join (dirname fp) ''train_col_types.json'' \<mapsto> TypesJson (types (parse env c))) \<and>
           experiments w' = experiments w \<and> runs w' = runs w \<and> active_run w' = active_run w \<and>
           next_run w' = next_run w \<and> tracking_uri w' = ''file:'' @ mlruns_path"
  using assms by (simp add: train_load_def io_defs op_defs Let_def)

lemma main_load_missing:
  assumes "files w train_csv = None"
  shows "\<exists>w'. main_load env t w = (Inl FileNotFoundError, w') \<and>
           trace w' = trace w @ [ImportFile train_csv] \<and>
           files w' = files w \<and> experiments w' = experiments w \<and> runs w' = runs w \<and>
           active_run w' = active_run w"
  using assms by (simp add: main_load_def io_defs op_defs)

lemma main_load_unwritable:
  assumes "files w train_csv = Some c" "\<not> writable env train_col_types_json"
  shows "\<exists>w'. main_load env t w = (Inl IOError, w') \<and>
           trace w' = trace w @ [ImportFile train_csv, WriteFile train_col_types_json] \<and>
           files w' = files w \<and> experiments w' = experiments w \<and> runs w' = runs w \<and>
           active_run w' = active_run w"
  using assms by (simp add: main_load_def io_defs op_defs Let_def)

lemma main_load_bad_target:
  assumes "files w train_csv = Some c" "writable env train_col_types_json"
    and "asfactor env t (parse env c) = Inl e"
  shows "\<exists>w'. main_load env t w = (Inl e, w') \<and>
           trace w' = trace w @ [ImportFile train_csv, WriteFile train_col_types_json, AsFactor t] \<and>
           files w' = (files w)(train_col_types_json \<mapsto> TypesJson (types (parse env c))) \<and>
           experiments w' = experiments w \<and> runs w' = runs w \<and> active_run w' = active_run w"
  using assms by (simp add: main_load_def io_defs op_defs Let_def)

lemma main_load_ok:
  assumes "files w train_csv = Some c" "writable env train_col_types_json"
    and "asfactor env t (parse env c) = Inr f'"
  shows "\<exists>w'. main_load env t w = (Inr ([n \<leftarrow> col_names (parse env c). n \<noteq> t], f'), w') \<and>
           trace w' = trace w @ [ImportFile train_csv, WriteFile train_col_types_json, AsFactor t] \<and>
           files w' = (files w)(train_col_types_json \<mapsto> TypesJson (types (parse env c))) \<and>
           experiments w' = experiments w \<and> runs w' = runs w \<and> active_run w' = active_run w \<and>
           next_run w' = next_run w"
  using assms by (simp add: main_load_def io_defs op_defs Let_def)

subsection \<open>Runs\<close>

lemma start_run_cases:
  "(\<exists>e. start_run w = (Inl e, w)) \<or>
   (\<exists>w1 r. start_run w = (Inr (str_nat (next_run w)), w1) \<and> active_run w = None \<and>
      active_run w1 = Some (str_nat (next_run w)) \<and>
      trace w1 = trace w @ [StartRun (str_nat (next_run w))] \<and>
      files w1 = files w \<and> experiments w1 = experiments w \<and>
      runs w1 = runs w @ [r] \<and> run_id r = str_nat (next_run w) \<and> status r = RUNNING \<and>
      artifacts r = Map.empty \<and> metrics r = Map.empty)"
  by (simp add: start_run_def Let_def split: option.splits)

lemma end_run_active:
  assumes "active_run w = Some rid"
  shows "trace (end_run st w) = trace w @ [EndRun rid st]"
    and "files (end_run st w) = files w"
    and "experiments (end_run st w) = experiments w"
    and "active_run (end_run st w) = None"
    and "runs (end_run st w) = map (\<lambda>r. if run_id r = rid then r\<lparr>status := st\<rparr> else r) (runs w)"
  using assms by (simp_all add: end_run_def)

lemma last_run_ended:
  assumes "rs \<noteq> []" "run_id (last rs) = rid"
  shows "status (last (map (\<lambda>r. if run_id r = rid then r\<lparr>status := st\<rparr> else r) rs)) = st"
    and "run_id (last (map (\<lambda>r. if run_id r = rid then r\<lparr>status := st\<rparr> else r) rs)) = rid"
    and "artifacts (last (map (\<lambda>r. if run_id r = rid then r\<lparr>status := st\<rparr> else r) rs)) = artifacts (last rs)"
    and "metrics (last (map (\<lambda>r. if run_id r = rid then r\<lparr>status := st\<rparr> else r) rs)) = metrics (last rs)"
  using assms by (simp_all add: last_map)

lemma last_run_id:
  assumes "map run_id rs' = map run_id (rs @ [r])"
  shows "rs' \<noteq> [] \<and> run_id (last rs') = run_id r"
proof -
  from assms have ne: "rs' \<noteq> []" by auto
  then have "run_id (last rs') = last (map run_id rs')" by (simp add: last_map)
  with assms ne show ?thesis by simp
qed

text \<open>What a \<open>with\<close> block does around a body that keeps the active run, adds and removes no
  run, writes only files whose name ends in \<open>v\<close>, and makes only calls satisfying \<open>P\<close>.\<close>

lemma with_run_summary:
  assumes body: "\<And>w1. active_run w1 = Some (str_nat (next_run w)) \<Longrightarrow>
      active_run (snd (body (str_nat (next_run w)) w1)) = Some (str_nat (next_run w)) \<and>
      map run_id (runs (snd (body (str_nat (next_run w)) w1))) = map run_id (runs w1) \<and>
      experiments (snd (body (str_nat (next_run w)) w1)) = experiments w1 \<and>
      (\<forall>p. last p \<noteq> CHR ''v'' \<longrightarrow> files (snd (body (str_nat (next_run w)) w1)) p = files w1 p) \<and>
      (\<exists>es. trace (snd (body (str_nat (next_run w)) w1)) = trace w1 @ es \<and> list_all P es)"
  shows "(\<exists>e. with_run body w = (Inl e, w)) \<or>
    (\<exists>es. trace (snd (with_run body w)) =
            trace w @ [StartRun (str_nat (next_run w))] @ es @
              [EndRun (str_nat (next_run w)) (outcome_status (fst (with_run body w)))] \<and>
          list_all P es \<and>
          runs (snd (with_run body w)) \<noteq> [] \<and>
          length (runs (snd (with_run body w))) = Suc (length (runs w)) \<and>
          run_id (last (runs (snd (with_run body w)))) = str_nat (next_run w) \<and>
          status (last (runs (snd (with_run body w)))) = outcome_status (fst (with_run body w)) \<and>
          active_run (snd (with_run body w)) = None \<and>
          experiments (snd (with_run body w)) = experiments w \<and>
          (\<forall>p. last p \<noteq> CHR ''v'' \<longrightarrow> files (snd (with_run body w)) p = files w p))"
proof -
  let ?rid = "str_nat (next_run w)"
  from start_run_cases [of w] show ?thesis
  proof
    assume "\<exists>e. start_run w = (Inl e, w)"
    then show ?thesis by (auto simp add: with_run_def)
  next
    assume "\<exists>w1 r. start_run w = (Inr ?rid, w1) \<and> active_run w = None \<and>
      active_run w1 = Some ?rid \<and> trace w1 = trace w @ [StartRun ?rid] \<and>
      files w1 = files w \<and> experiments w1 = experiments w \<and>
      runs w1 = runs w @ [r] \<and> run_id r = ?rid \<and> status r = RUNNING \<and>
      artifacts r = Map.empty \<and> metrics r = Map.empty"
    then obtain w1 r where s: "start_run w = (Inr ?rid, w1)" "active_run w1 = Some ?rid"
      "trace w1 = trace w @ [StartRun ?rid]" "files w1 = files w" "experiments w1 = experiments w"
      "runs w1 = runs w @ [r]" "run_id r = ?rid"
      by blast
    obtain res w2 where b: "body ?rid w1 = (res, w2)" by (cases "body ?rid w1")
    from body [OF s(2)] b obtain es where w2: "active_run w2 = Some ?rid"
      "map run_id (runs w2) = map run_id (runs w1)" "experiments w2 = experiments w1"
      "\<forall>p. last p \<noteq> CHR ''v'' \<longrightarrow> files w2 p = files w1 p"
      "trace w2 = trace w1 @ es" "list_all P es"
      by auto
    have wr: "with_run body w = (res, end_run (outcome_status res) w2)"
      using s(1) b by (cases res) (simp_all add: with_run_def outcome_status_def)
    from w2(2) s(6) have ne: "runs w2 \<noteq> []" and lst: "run_id (last (runs w2)) = ?rid"
      using last_run_id [of "runs w2" "runs w" r] s(7) by simp_all
    from w2(2) s(6) have len: "length (runs w2) = Suc (length (runs w))"
      using map_eq_imp_length_eq [of run_id "runs w2" run_id "runs w @ [r]"] by simp
    have "trace (end_run (outcome_status res) w2) =
            trace w @ [StartRun ?rid] @ es @ [EndRun ?rid (outcome_status res)]"
      using end_run_active(1) [OF w2(1)] w2(5) s(3) by simp
    moreover have "runs (end_run (outcome_status res) w2) \<noteq> []"
      using end_run_active(5) [OF w2(1)] ne by simp
    moreover have "length (runs (end_run (outcome_status res) w2)) = Suc (length (runs w))"
      using end_run_active(5) [OF w2(1)] len by simp
    moreover have "run_id (last (runs (end_run (outcome_status res) w2))) = ?rid"
      using end_run_active(5) [OF w2(1)] last_run_ended(2) [OF ne lst] by simp
    moreover have "status (last (runs (end_run (outcome_status res) w2))) = outcome_status res"
      using end_run_active(5) [OF w2(1)] last_run_ended(1) [OF ne lst] by simp
    moreover have "active_run (end_run (outcome_status res) w2) = None"
      using end_run_active(4) [OF w2(1)] .
    moreover have "experiments (end_run (outcome_status res) w2) = experiments w"
      using end_run_active(3) [OF w2(1)] w2(3) s(5) by simp
    moreover have "\<forall>p. last p \<noteq> CHR ''v'' \<longrightarrow> files (end_run (outcome_status res) w2) p = files w p"
      using end_run_active(2) [OF w2(1)] w2(4) s(4) by simp
    ultimately show ?thesis
      using wr w2(6) by auto
  qed
qed

subsection \<open>The two operations up to the run\<close>

lemma train_load_fails:
  assumes "train_load env t fp w = (Inl e, w')"
  shows "train env n t k fp w = (Inl e, w')"
  using assms by (simp add: train_def bind_def)

lemma train_ok_unfold:
  assumes "files w fp = Some c" "writable env (path_join (dirname fp) ''train_col_types.json'')"
    and "asfactor env t (parse env c) = Inr f'"
  shows "\<exists>e w1. train env n t k fp w =
             with_run (train_run env t k fp (path_join (dirname fp) ''train_col_types.json'')
                         [m \<leftarrow> col_names (parse env c). m \<noteq> t] f') w1 \<and>
           trace w1 = trace w @ [MakeDirs mlruns_path, SetTrackingUri (''file:'' @ mlruns_path), H2OInit,
                                 ImportFile fp, WriteFile (path_join (dirname fp) ''train_col_types.json''),
                                 AsFactor t] @
                        (if map_of (experiments w) n = None
                         then [CreateExperiment n, SetExperiment n]
                         else [CreateExperiment n, GetExperimentByName n, SetExperiment n]) \<and>
           files w1 = (files w)(path_join (dirname fp) ''train_col_types.json'' \<mapsto> TypesJson (types (parse env c))) \<and>
           runs w1 = runs w \<and> active_run w1 = active_run w \<and> next_run w1 = next_run w \<and>
           map_of (experiments w1) n = Some e \<and> active_experiment w1 = Some (experiment_id e)"
proof -
  from train_load_ok [OF assms] obtain w0 where l:
    "train_load env t fp w =
       (Inr (path_join (dirname fp) ''train_col_types.json'', [n \<leftarrow> col_names (parse env c). n \<noteq> t], f'), w0)"
    "trace w0 = trace w @ [MakeDirs mlruns_path, SetTrackingUri (''file:'' @ mlruns_path), H2OInit,
        ImportFile fp, WriteFile (path_join (dirname fp) ''train_col_types.json''), AsFactor t]"
    "files w0 = (files w)(path_join (dirname fp) ''train_col_types.json'' \<mapsto> TypesJson (types (parse env c)))"
    "experiments w0 = experiments w" "runs w0 = runs w" "active_run w0 = active_run w"
    "next_run w0 = next_run w"
    by blast
  from train_experiment_setup_result [of n w0] obtain e w1 where s:
    "train_experiment_setup n w0 = (Inr (experiment_id e), w1)"
    "map_of (experiments w1) n = Some e" "active_experiment w1 = Some (experiment_id e)"
    "runs w1 = runs w0" "files w1 = files w0" "active_run w1 = active_run w0"
    "next_run w1 = next_run w0"
    "trace w1 = trace w0 @ (if map_of (experiments w0) n = None
                            then [CreateExperiment n, SetExperiment n]
                            else [CreateExperiment n, GetExperimentByName n, SetExperiment n])"
    by blast
  have "train env n t k fp w =
          with_run (train_run env t k fp (path_join (dirname fp) ''train_col_types.json'')
                      [m \<leftarrow> col_names (parse env c). m \<noteq> t] f') w1"
    using l(1) s(1) by (simp add: train_def bind_def)
  with l s show ?thesis
    by (intro exI [of _ e] exI [of _ w1]) simp
qed

lemma main_unfold:
  "\<exists>e w1. main env n t k w =
       bind (main_load env t)
         (\<lambda>(predictors, main_frame).
             with_run (main_run env t k (experiment_id e) predictors main_frame)) w1 \<and>
     trace w1 = trace w @ [H2OInit, CreateExperiment n, GetExperimentByName n, SetExperiment n] \<and>
     files w1 = files w \<and> runs w1 = runs w \<and> active_run w1 = active_run w \<and>
     next_run w1 = next_run w \<and> map_of (experiments w1) n = Some e \<and>
     active_experiment w1 = Some (experiment_id e) \<and>
     experiments w1 = (if map_of (experiments w) n = None
                       then experiments w @ [(n, e)] else experiments w)"
proof -
  from main_experiment_setup_result [of n "emit H2OInit w"] obtain e w1 where s0:
    "main_experiment_setup n (emit H2OInit w) = (Inr (Some e), w1)"
    "map_of (experiments w1) n = Some e" "active_experiment w1 = Some (experiment_id e)"
    "runs w1 = runs (emit H2OInit w)" "files w1 = files (emit H2OInit w)"
    "active_run w1 = active_run (emit H2OInit w)" "next_run w1 = next_run (emit H2OInit w)"
    "trace w1 = trace (emit H2OInit w) @ [CreateExperiment n, GetExperimentByName n, SetExperiment n]"
    "experiments w1 = (if map_of (experiments (emit H2OInit w)) n = None
                       then experiments (emit H2OInit w) @ [(n, e)] else experiments (emit H2OInit w))"
    by blast
  note s = s0 [simplified]
  have "main env n t k w =
          bind (main_load env t)
            (\<lambda>(predictors, main_frame).
                with_run (main_run env t k (experiment_id e) predictors main_frame)) w1"
    using s(1) by (simp add: main_def h2o_init_def bind_def)
  with s show ?thesis
    by (intro exI [of _ e] exI [of _ w1]) simp
qed

lemma main_load_fails:
  assumes "main_load env t w1 = (Inl x, w')"
    and "main env n t k w = bind (main_load env t) g w1"
  shows "main env n t k w = (Inl x, w')"
  using assms by (simp add: bind_def)

subsection \<open>Failures before the run\<close>


lemma train_missing:
  assumes "files w fp = None"
  shows "\<exists>w'. train env n t k fp w = (Inl FileNotFoundError, w') \<and>
           trace w' = trace w @ [MakeDirs mlruns_path, SetTrackingUri (''file:'' @ mlruns_path), H2OInit] @
                        (if exists_at (snd (makedirs mlruns_path w)) fp then [ImportFile fp] else []) \<and>
           files w' = files w \<and> experiments w' = experiments w \<and> runs w' = runs w \<and>
           next_experiment w' = next_experiment w \<and> active_run w' = active_run w"
  using train_load_missing [OF assms, of env t] train_load_fails by blast

lemma train_unwritable:
  assumes "files w fp = Some c" "\<not> writable env (path_join (dirname fp) ''train_col_types.json'')"
  shows "\<exists>w'. train env n t k fp w = (Inl IOError, w') \<and>
           trace w' = trace w @ [MakeDirs mlruns_path, SetTrackingUri (''file:'' @ mlruns_path), H2OInit,
                                 ImportFile fp, WriteFile (path_join (dirname fp) ''train_col_types.json'')] \<and>
           files w' = files w \<and> experiments w' = experiments w \<and> runs w' = runs w \<and>
           active_run w' = active_run w"
  using train_load_unwritable [OF assms, of t] train_load_fails by blast

lemma train_bad_target:
  assumes "files w fp = Some c" "writable env (path_join (dirname fp) ''train_col_types.json'')"
    and "asfactor env t (parse env c) = Inl e"
  shows "\<exists>w'. train env n t k fp w = (Inl e, w') \<and>
           trace w' = trace w @ [MakeDirs mlruns_path, SetTrackingUri (''file:'' @ mlruns_path), H2OInit,
                                 ImportFile fp, WriteFile (path_join (dirname fp) ''train_col_types.json''),
                                 AsFactor t] \<and>
           files w' = (files w)(path_join (dirname fp) ''train_col_types.json'' \<mapsto> TypesJson (types (parse env c))) \<and>
           experiments w' = experiments w \<and> runs w' = runs w \<and> active_run w' = active_run w"
  using train_load_bad_target [OF assms] train_load_fails by blast

lemma main_missing:
  assumes "files w train_csv = None"
  shows "\<exists>w'. main env n t k w = (Inl FileNotFoundError, w') \<and>
           trace w' = trace w @ [H2OInit, CreateExperiment n, GetExperimentByName n, SetExperiment n,
                                 ImportFile train_csv] \<and>
           files w' = files w \<and> runs w' = runs w \<and> active_run w' = active_run w \<and>
           map_of (experiments w') n \<noteq> None"
proof -
  from main_unfold [of env n t k w] obtain e :: mlflow_experiment and w1 where u:
    "main env n t k w =
       bind (main_load env t)
         (\<lambda>(predictors, main_frame).
             with_run (main_run env t k (experiment_id e) predictors main_frame)) w1"
    "trace w1 = trace w @ [H2OInit, CreateExperiment n, GetExperimentByName n, SetExperiment n]"
    "files w1 = files w" "runs w1 = runs w" "active_run w1 = active_run w"
    "map_of (experiments w1) n = Some e"
    by (elim exE conjE) (rule that; assumption)
  from assms u(3) have "files w1 train_csv = None" by simp
  from main_load_missing [OF this, of env t] obtain w' where l:
    "main_load env t w1 = (Inl FileNotFoundError, w')" "trace w' = trace w1 @ [ImportFile train_csv]"
    "files w' = files w1" "experiments w' = experiments w1" "runs w' = runs w1"
    "active_run w' = active_run w1"
    by (elim exE conjE) (rule that; assumption)
  from main_load_fails [OF l(1) u(1)] l u show ?thesis by simp
qed

lemma main_unwritable:
  assumes "files w train_csv = Some c" "\<not> writable env train_col_types_json"
  shows "\<exists>w'. main env n t k w = (Inl IOError, w') \<and>
           trace w' = trace w @ [H2OInit, CreateExperiment n, GetExperimentByName n, SetExperiment n,
                                 ImportFile train_csv, WriteFile train_col_types_json] \<and>
           files w' = files w \<and> runs w' = runs w \<and> active_run w' = active_run w"
proof -
  from main_unfold [of env n t k w] obtain e :: mlflow_experiment and w1 where u:
    "main env n t k w =
       bind (main_load env t)
         (\<lambda>(predictors, main_frame).
             with_run (main_run env t k (experiment_id e) predictors main_frame)) w1"
    "trace w1 = trace w @ [H2OInit, CreateExperiment n, GetExperimentByName n, SetExperiment n]"
    "files w1 = files w" "runs w1 = runs w" "active_run w1 = active_run w"
    by (elim exE conjE) (rule that; assumption)
  from assms u(3) have "files w1 train_csv = Some c" by simp
  from main_load_unwritable [OF this assms(2), of t] obtain w' where l:
    "main_load env t w1 = (Inl IOError, w')"
    "trace w' = trace w1 @ [ImportFile train_csv, WriteFile train_col_types_json]"
    "files w' = files w1" "runs w' = runs w1" "active_run w' = active_run w1"
    by (elim exE conjE) (rule that; assumption)
  from main_load_fails [OF l(1) u(1)] l u show ?thesis by simp
qed

lemma main_bad_target:
  assumes "files w train_csv = Some c" "writable env train_col_types_json"
    and "asfactor env t (parse env c) = Inl x"
  shows "\<exists>w'. main env n t k w = (Inl x, w') \<and>
           trace w' = trace w @ [H2OInit, CreateExperiment n, GetExperimentByName n, SetExperiment n,
                                 ImportFile train_csv, WriteFile train_col_types_json, AsFactor t] \<and>
           files w' = (files w)(train_col_types_json \<mapsto> TypesJson (types (parse env c))) \<and>
           runs w' = runs w \<and> active_run w' = active_run w"
proof -
  from main_unfold [of env n t k w] obtain e :: mlflow_experiment and w1 where u:
    "main env n t k w =
       bind (main_load env t)
         (\<lambda>(predictors, main_frame).
             with_run (main_run env t k (experiment_id e) predictors main_frame)) w1"
    "trace w1 = trace w @ [H2OInit, CreateExperiment n, GetExperimentByName n, SetExperiment n]"
    "files w1 = files w" "runs w1 = runs w" "active_run w1 = active_run w"
    by (elim exE conjE) (rule that; assumption)
  from assms u(3) have "files w1 train_csv = Some c" by simp
  from main_load_bad_target [OF this assms(2,3)] obtain w' where l:
    "main_load env t w1 = (Inl x, w')"
    "trace w' = trace w1 @ [ImportFile train_csv, WriteFile train_col_types_json, AsFactor t]"
    "files w' = (files w1)(train_col_types_json \<mapsto> TypesJson (types (parse env c)))"
    "runs w' = runs w1" "active_run w' = active_run w1"
    by (elim exE conjE) (rule that; assumption)
  from main_load_fails [OF l(1) u(1)] l u show ?thesis by simp
qed

lemma main_ok_unfold:
  assumes "files w train_csv = Some c" "writable env train_col_types_json"
    and "asfactor env t (parse env c) = Inr f'"
  shows "\<exists>e w1. main env n t k w =
             with_run (main_run env t k (experiment_id e)
                         [m \<leftarrow> col_names (parse env c). m \<noteq> t] f') w1 \<and>
           trace w1 = trace w @ [H2OInit, CreateExperiment n, GetExperimentByName n, SetExperiment n,
                                 ImportFile train_csv, WriteFile train_col_types_json, AsFactor t] \<and>
           files w1 = (files w)(train_col_types_json \<mapsto> TypesJson (types (parse env c))) \<and>
           runs w1 = runs w \<and> active_run w1 = active_run w \<and> next_run w1 = next_run w \<and>
           map_of (experiments w1) n = Some e \<and> active_experiment w1 = Some (experiment_id e)"
proof -
  from main_unfold [of env n t k w] obtain e :: mlflow_experiment and w0 where u:
    "main env n t k w =
       bind (main_load env t)
         (\<lambda>(predictors, main_frame).
             with_run (main_run env t k (experiment_id e) predictors main_frame)) w0"
    "trace w0 = trace w @ [H2OInit, CreateExperiment n, GetExperimentByName n, SetExperiment n]"
    "files w0 = files w" "runs w0 = runs w" "active_run w0 = active_run w"
    "next_run w0 = next_run w" "map_of (experiments w0) n = Some e"
    "active_experiment w0 = Some (experiment_id e)"
    by (elim exE conjE) (rule that; assumption)
  from assms u(3) have "files w0 train_csv = Some c" by simp
  from main_load_ok [OF this assms(2,3)] obtain w1 where l:
    "main_load env t w0 = (Inr ([n \<leftarrow> col_names (parse env c). n \<noteq> t], f'), w1)"
    "trace w1 = trace w0 @ [ImportFile train_csv, WriteFile train_col_types_json, AsFactor t]"
    "files w1 = (files w0)(train_col_types_json \<mapsto> TypesJson (types (parse env c)))"
    "experiments w1 = experiments w0" "runs w1 = runs w0" "active_run w1 = active_run w0"
    "next_run w1 = next_run w0"
    by (elim exE conjE) (rule that; assumption)
  have "active_experiment w1 = active_experiment w0"
    using l(1) assms \<open>files w0 train_csv = Some c\<close>
    by (auto simp add: main_load_def io_defs op_defs Let_def)
  moreover have "main env n t k w =
      with_run (main_run env t k (experiment_id e) [m \<leftarrow> col_names (parse env c). m \<noteq> t] f') w1"
    using u(1) l(1) by (simp add: bind_def)
  ultimately show ?thesis
    using l u by (intro exI [of _ e] exI [of _ w1]) simp
qed

subsection \<open>Paths\<close>

lemma last_path_join: "b \<noteq> [] \<Longrightarrow> last (path_join a b) = last b"
  by (simp add: path_join_def)

lemma leaderboard_path_last [simp]: "last (path_join a ''leaderboard.csv'') = CHR ''v''"
  by (simp add: last_path_join)

lemma col_type_path_last [simp]: "last (path_join a ''train_col_types.json'') = CHR ''n''"
  by (simp add: last_path_join)

lemma not_leaderboard_path [simp]:
  "last p \<noteq> CHR ''v'' \<Longrightarrow> p \<noteq> path_join a ''leaderboard.csv''"
  "last p \<noteq> CHR ''v'' \<Longrightarrow> p \<noteq> ''mlruns/'' @ x @ ''/'' @ y @ ''/artifacts/model/leaderboard.csv''"
  by auto

subsection \<open>The body of the run\<close>

lemma run_ids_logged [simp]:
  "map run_id (map (\<lambda>r. if run_id r = rid then r\<lparr>artifacts := a r\<rparr> else r) rs) = map run_id rs"
  "map run_id (map (\<lambda>r. if run_id r = rid then r\<lparr>metrics := m r\<rparr> else r) rs) = map run_id rs"
  "map run_id (map (\<lambda>r. if run_id r = rid then r\<lparr>status := s\<rparr> else r) rs) = map run_id rs"
  by simp_all

lemma train_run_body:
  assumes "active_run w = Some rid"
  shows "active_run (snd (train_run env t k fp ctp preds f rid0 w)) = Some rid \<and>
      map run_id (runs (snd (train_run env t k fp ctp preds f rid0 w))) = map run_id (runs w) \<and>
      experiments (snd (train_run env t k fp ctp preds f rid0 w)) = experiments w \<and>
      (\<forall>p. last p \<noteq> CHR ''v'' \<longrightarrow> files (snd (train_run env t k fp ctp preds f rid0 w)) p = files w p) \<and>
      (\<exists>es. trace (snd (train_run env t k fp ctp preds f rid0 w)) = trace w @ es \<and>
            list_all (\<lambda>e. \<not> is_start_run e \<and> \<not> is_end_run e \<and>
                          (is_engine_call e \<longrightarrow> e = AutoMLTrain (automl_policy k) preds t f)) es)"
  using assms
  by (auto simp add: train_run_def save_leaderboard_def io_defs active_simps makedirs_def
        to_csv_def automl_train_def Let_def
      split: option.splits sum.splits)

lemma main_run_body:
  assumes "active_run w = Some rid"
  shows "active_run (snd (main_run env t k x preds f rid0 w)) = Some rid \<and>
      map run_id (runs (snd (main_run env t k x preds f rid0 w))) = map run_id (runs w) \<and>
      experiments (snd (main_run env t k x preds f rid0 w)) = experiments w \<and>
      (\<forall>p. last p \<noteq> CHR ''v'' \<longrightarrow> files (snd (main_run env t k x preds f rid0 w)) p = files w p) \<and>
      (\<exists>es. trace (snd (main_run env t k x preds f rid0 w)) = trace w @ es \<and>
            list_all (\<lambda>e. \<not> is_start_run e \<and> \<not> is_end_run e \<and>
                          (is_engine_call e \<longrightarrow> e = AutoMLTrain (automl_policy k) preds t f)) es)"
  using assms
  by (auto simp add: main_run_def io_defs active_simps active_run_id_def
        to_csv_def automl_train_def Let_def
      split: option.splits sum.splits)

subsection \<open>The shape of an execution\<close>

lemma filter_none: "list_all (\<lambda>e. \<not> P e \<and> Q e) es \<Longrightarrow> filter P es = []"
  by (induction es) auto

lemma train_shape:
  fixes env n t k fp w
  defines "T \<equiv> train env n t k fp w" and "rid \<equiv> str_nat (next_run w)"
  shows "\<exists>pre. list_all (\<lambda>e. \<not> is_start_run e \<and> \<not> is_end_run e \<and> \<not> is_engine_call e) pre \<and>
     ((\<exists>x. fst T = Inl x) \<and> new_events w (snd T) = pre \<and> runs (snd T) = runs w \<and>
        active_run (snd T) = active_run w
      \<or> (\<exists>es c f'. files w fp = Some c \<and> asfactor env t (parse env c) = Inr f' \<and>
           new_events w (snd T) = pre @ [StartRun rid] @ es @ [EndRun rid (outcome_status (fst T))] \<and>
           list_all (\<lambda>e. \<not> is_start_run e \<and> \<not> is_end_run e \<and>
              (is_engine_call e \<longrightarrow>
                 e = AutoMLTrain (automl_policy k) [m \<leftarrow> col_names (parse env c). m \<noteq> t] t f')) es \<and>
           runs (snd T) \<noteq> [] \<and> length (runs (snd T)) = Suc (length (runs w)) \<and>
           run_id (last (runs (snd T))) = rid \<and>
           status (last (runs (snd T))) = outcome_status (fst T) \<and>
           active_run (snd T) = None))"
proof (cases "files w fp")
  case None
  from train_missing [OF None, of env n t k] show ?thesis
    unfolding T_def
    by (intro exI [of _ "[MakeDirs mlruns_path, SetTrackingUri (''file:'' @ mlruns_path), H2OInit] @
           (if exists_at (snd (makedirs mlruns_path w)) fp then [ImportFile fp] else [])"]) auto
next
  case (Some c)
  let ?ctp = "path_join (dirname fp) ''train_col_types.json''"
  show ?thesis
  proof (cases "writable env ?ctp")
    case False
    from train_unwritable [OF Some False, of n t k] show ?thesis
      unfolding T_def
      by (intro exI [of _ "[MakeDirs mlruns_path, SetTrackingUri (''file:'' @ mlruns_path), H2OInit,
             ImportFile fp, WriteFile ?ctp]"]) auto
  next
    case True
    show ?thesis
    proof (cases "asfactor env t (parse env c)")
      case (Inl x)
      from train_bad_target [OF Some True Inl, of n k] show ?thesis
        unfolding T_def
        by (intro exI [of _ "[MakeDirs mlruns_path, SetTrackingUri (''file:'' @ mlruns_path), H2OInit,
               ImportFile fp, WriteFile ?ctp, AsFactor t]"]) auto
    next
      case (Inr f')
      let ?preds = "[m \<leftarrow> col_names (parse env c). m \<noteq> t]"
      let ?body = "train_run env t k fp ?ctp ?preds f'"
      let ?pre = "[MakeDirs mlruns_path, SetTrackingUri (''file:'' @ mlruns_path), H2OInit,
                   ImportFile fp, WriteFile ?ctp, AsFactor t] @
                  (if map_of (experiments w) n = None
                   then [CreateExperiment n, SetExperiment n]
                   else [CreateExperiment n, GetExperimentByName n, SetExperiment n])"
      let ?P = "\<lambda>e. \<not> is_start_run e \<and> \<not> is_end_run e \<and>
                  (is_engine_call e \<longrightarrow> e = AutoMLTrain (automl_policy k) ?preds t f')"
      from train_ok_unfold [OF Some True Inr, of n k] obtain e :: mlflow_experiment and w1 where u:
        "train env n t k fp w = with_run ?body w1" "trace w1 = trace w @ ?pre"
        "runs w1 = runs w" "active_run w1 = active_run w" "next_run w1 = next_run w"
        by (elim exE conjE) (rule that; assumption)
      have pre: "list_all (\<lambda>e. \<not> is_start_run e \<and> \<not> is_end_run e \<and> \<not> is_engine_call e) ?pre"
        by simp
      have "(\<exists>e. with_run ?body w1 = (Inl e, w1)) \<or>
        (\<exists>es. trace (snd (with_run ?body w1)) =
            trace w1 @ [StartRun (str_nat (next_run w1))] @ es @
              [EndRun (str_nat (next_run w1)) (outcome_status (fst (with_run ?body w1)))] \<and>
          list_all ?P es \<and>
          runs (snd (with_run ?body w1)) \<noteq> [] \<and>
          length (runs (snd (with_run ?body w1))) = Suc (length (runs w1)) \<and>
          run_id (last (runs (snd (with_run ?body w1)))) = str_nat (next_run w1) \<and>
          status (last (runs (snd (with_run ?body w1)))) = outcome_status (fst (with_run ?body w1)) \<and>
          active_run (snd (with_run ?body w1)) = None \<and>
          experiments (snd (with_run ?body w1)) = experiments w1 \<and>
          (\<forall>p. last p \<noteq> CHR ''v'' \<longrightarrow> files (snd (with_run ?body w1)) p = files w1 p))"
        by (rule with_run_summary) (rule train_run_body)
      then show ?thesis
      proof
        assume "\<exists>e. with_run ?body w1 = (Inl e, w1)"
        with u pre show ?thesis
          unfolding T_def by (intro exI [of _ ?pre]) auto
      next
        assume "\<exists>es. trace (snd (with_run ?body w1)) =
            trace w1 @ [StartRun (str_nat (next_run w1))] @ es @
              [EndRun (str_nat (next_run w1)) (outcome_status (fst (with_run ?body w1)))] \<and>
          list_all ?P es \<and>
          runs (snd (with_run ?body w1)) \<noteq> [] \<and>
          length (runs (snd (with_run ?body w1))) = Suc (length (runs w1)) \<and>
          run_id (last (runs (snd (with_run ?body w1)))) = str_nat (next_run w1) \<and>
          status (last (runs (snd (with_run ?body w1)))) = outcome_status (fst (with_run ?body w1)) \<and>
          active_run (snd (with_run ?body w1)) = None \<and>
          experiments (snd (with_run ?body w1)) = experiments w1 \<and>
          (\<forall>p. last p \<noteq> CHR ''v'' \<longrightarrow> files (snd (with_run ?body w1)) p = files w1 p)"
        then obtain es where r:
          "trace (snd (with_run ?body w1)) =
             trace w1 @ [StartRun (str_nat (next_run w1))] @ es @
               [EndRun (str_nat (next_run w1)) (outcome_status (fst (with_run ?body w1)))]"
          "list_all ?P es" "runs (snd (with_run ?body w1)) \<noteq> []"
          "length (runs (snd (with_run ?body w1))) = Suc (length (runs w1))"
          "run_id (last (runs (snd (with_run ?body w1)))) = str_nat (next_run w1)"
          "status (last (runs (snd (with_run ?body w1)))) = outcome_status (fst (with_run ?body w1))"
          "active_run (snd (with_run ?body w1)) = None"
          by (elim exE conjE) (rule that; assumption)
        have "new_events w (snd T) = ?pre @ [StartRun rid] @ es @ [EndRun rid (outcome_status (fst T))]"
          unfolding T_def rid_def using r(1) u by (simp add: new_events_def)
        with r u Some Inr pre show ?thesis
          unfolding T_def rid_def
          by (intro exI [of _ ?pre] conjI disjI2 exI [of _ es] exI [of _ c] exI [of _ f']) simp_all
      qed
    qed
  qed
qed

lemma main_shape:
  fixes env n t k w
  defines "T \<equiv> main env n t k w" and "rid \<equiv> str_nat (next_run w)"
  shows "\<exists>pre. list_all (\<lambda>e. \<not> is_start_run e \<and> \<not> is_end_run e \<and> \<not> is_engine_call e) pre \<and>
     ((\<exists>x. fst T = Inl x) \<and> new_events w (snd T) = pre \<and> runs (snd T) = runs w \<and>
        active_run (snd T) = active_run w
      \<or> (\<exists>es c f'. files w train_csv = Some c \<and> asfactor env t (parse env c) = Inr f' \<and>
           new_events w (snd T) = pre @ [StartRun rid] @ es @ [EndRun rid (outcome_status (fst T))] \<and>
           list_all (\<lambda>e. \<not> is_start_run e \<and> \<not> is_end_run e \<and>
              (is_engine_call e \<longrightarrow>
                 e = AutoMLTrain (automl_policy k) [m \<leftarrow> col_names (parse env c). m \<noteq> t] t f')) es \<and>
           runs (snd T) \<noteq> [] \<and> length (runs (snd T)) = Suc (length (runs w)) \<and>
           run_id (last (runs (snd T))) = rid \<and>
           status (last (runs (snd T))) = outcome_status (fst T) \<and>
           active_run (snd T) = None))"
proof (cases "files w train_csv")
  case None
  from main_missing [OF None, of env n t k] show ?thesis
    unfolding T_def
    by (intro exI [of _ "[H2OInit, CreateExperiment n, GetExperimentByName n, SetExperiment n,
           ImportFile train_csv]"]) auto
next
  case (Some c)
  show ?thesis
  proof (cases "writable env train_col_types_json")
    case False
    from main_unwritable [OF Some False, of n t k] show ?thesis
      unfolding T_def
      by (intro exI [of _ "[H2OInit, CreateExperiment n, GetExperimentByName n, SetExperiment n,
             ImportFile train_csv, WriteFile train_col_types_json]"]) auto
  next
    case True
    show ?thesis
    proof (cases "asfactor env t (parse env c)")
      case (Inl x)
      from main_bad_target [OF Some True Inl, of n k] show ?thesis
        unfolding T_def
        by (intro exI [of _ "[H2OInit, CreateExperiment n, GetExperimentByName n, SetExperiment n,
               ImportFile train_csv, WriteFile train_col_types_json, AsFactor t]"]) auto
    next
      case (Inr f')
      let ?preds = "[m \<leftarrow> col_names (parse env c). m \<noteq> t]"
      let ?pre = "[H2OInit, CreateExperiment n, GetExperimentByName n, SetExperiment n,
                   ImportFile train_csv, WriteFile train_col_types_json, AsFactor t]"
      let ?P = "\<lambda>e. \<not> is_start_run e \<and> \<not> is_end_run e \<and>
                  (is_engine_call e \<longrightarrow> e = AutoMLTrain (automl_policy k) ?preds t f')"
      from main_ok_unfold [OF Some True Inr, of n k] obtain e :: mlflow_experiment and w1 where u:
        "main env n t k w = with_run (main_run env t k (experiment_id e) ?preds f') w1"
        "trace w1 = trace w @ ?pre"
        "runs w1 = runs w" "active_run w1 = active_run w" "next_run w1 = next_run w"
        by (elim exE conjE) (rule that; assumption)
      let ?body = "main_run env t k (experiment_id e) ?preds f'"
      have pre: "list_all (\<lambda>e. \<not> is_start_run e \<and> \<not> is_end_run e \<and> \<not> is_engine_call e) ?pre"
        by simp
      have "(\<exists>e. with_run ?body w1 = (Inl e, w1)) \<or>
        (\<exists>es. trace (snd (with_run ?body w1)) =
            trace w1 @ [StartRun (str_nat (next_run w1))] @ es @
              [EndRun (str_nat (next_run w1)) (outcome_status (fst (with_run ?body w1)))] \<and>
          list_all ?P es \<and>
          runs (snd (with_run ?body w1)) \<noteq> [] \<and>
          length (runs (snd (with_run ?body w1))) = Suc (length (runs w1)) \<and>
          run_id (last (runs (snd (with_run ?body w1)))) = str_nat (next_run w1) \<and>
          status (last (runs (snd (with_run ?body w1)))) = outcome_status (fst (with_run ?body w1)) \<and>
          active_run (snd (with_run ?body w1)) = None \<and>
          experiments (snd (with_run ?body w1)) = experiments w1 \<and>
          (\<forall>p. last p \<noteq> CHR ''v'' \<longrightarrow> files (snd (with_run ?body w1)) p = files w1 p))"
        by (rule with_run_summary) (rule main_run_body)
      then show ?thesis
      proof
        assume "\<exists>e. with_run ?body w1 = (Inl e, w1)"
        with u pre show ?thesis
          unfolding T_def by (intro exI [of _ ?pre]) auto
      next
        assume "\<exists>es. trace (snd (with_run ?body w1)) =
            trace w1 @ [StartRun (str_nat (next_run w1))] @ es @
              [EndRun (str_nat (next_run w1)) (outcome_status (fst (with_run ?body w1)))] \<and>
          list_all ?P es \<and>
          runs (snd (with_run ?body w1)) \<noteq> [] \<and>
          length (runs (snd (with_run ?body w1))) = Suc (length (runs w1)) \<and>
          run_id (last (runs (snd (with_run ?body w1)))) = str_nat (next_run w1) \<and>
          status (last (runs (snd (with_run ?body w1)))) = outcome_status (fst (with_run ?body w1)) \<and>
          active_run (snd (with_run ?body w1)) = None \<and>
          experiments (snd (with_run ?body w1)) = experiments w1 \<and>
          (\<forall>p. last p \<noteq> CHR ''v'' \<longrightarrow> files (snd (with_run ?body w1)) p = files w1 p)"
        then obtain es where r:
          "trace (snd (with_run ?body w1)) =
             trace w1 @ [StartRun (str_nat (next_run w1))] @ es @
               [EndRun (str_nat (next_run w1)) (outcome_status (fst (with_run ?body w1)))]"
          "list_all ?P es" "runs (snd (with_run ?body w1)) \<noteq> []"
          "length (runs (snd (with_run ?body w1))) = Suc (length (runs w1))"
          "run_id (last (runs (snd (with_run ?body w1)))) = str_nat (next_run w1)"
          "status (last (runs (snd (with_run ?body w1)))) = outcome_status (fst (with_run ?body w1))"
          "active_run (snd (with_run ?body w1)) = None"
          by (elim exE conjE) (rule that; assumption)
        have "new_events w (snd T) = ?pre @ [StartRun rid] @ es @ [EndRun rid (outcome_status (fst T))]"
          unfolding T_def rid_def using r(1) u by (simp add: new_events_def)
        with r u Some Inr pre show ?thesis
          unfolding T_def rid_def
          by (intro exI [of _ ?pre] conjI disjI2 exI [of _ es] exI [of _ c] exI [of _ f']) simp_all
      qed
    qed
  qed
qed

lemma closed_once:
  assumes "list_all (\<lambda>e. \<not> is_start_run e \<and> \<not> is_end_run e \<and> \<not> is_engine_call e) pre"
    and "list_all (\<lambda>e. \<not> is_start_run e \<and> \<not> is_end_run e \<and> Q e) es"
    and "new = pre @ [StartRun rid] @ es @ [EndRun rid st]"
    and "StartRun r \<in> set new"
  shows "r = rid" and "filter is_start_run new = [StartRun rid]"
    and "filter is_end_run new = [EndRun rid st]" and "last new = EndRun rid st"
proof -
  from assms(1) have p: "filter is_start_run pre = []" "filter is_end_run pre = []"
    "\<forall>e\<in>set pre. \<not> is_start_run e"
    by (simp_all add: list_all_iff filter_empty_conv)
  from assms(2) have e: "filter is_start_run es = []" "filter is_end_run es = []"
    "\<forall>e\<in>set es. \<not> is_start_run e"
    by (simp_all add: list_all_iff filter_empty_conv)
  from assms(3) p e show "filter is_start_run new = [StartRun rid]"
    and "filter is_end_run new = [EndRun rid st]" and "last new = EndRun rid st"
    by simp_all
  from assms(3,4) p(3) e(3) show "r = rid" by auto
qed

lemma not_started:
  assumes "list_all (\<lambda>e. \<not> is_start_run e \<and> \<not> is_end_run e \<and> \<not> is_engine_call e) pre"
  shows "StartRun r \<notin> set pre" and "AutoMLTrain pol x y f \<notin> set pre"
  using assms by (auto simp add: list_all_iff)

lemma engine_call_in:
  assumes "list_all (\<lambda>e. \<not> is_start_run e \<and> \<not> is_end_run e \<and> \<not> is_engine_call e) pre"
    and "list_all (\<lambda>e. \<not> is_start_run e \<and> \<not> is_end_run e \<and> (is_engine_call e \<longrightarrow> e = E)) es"
    and "AutoMLTrain pol x y f \<in> set (pre @ [StartRun rid] @ es @ [EndRun rid st])"
  shows "AutoMLTrain pol x y f = E"
  using assms by (auto simp add: list_all_iff)

lemma train_engine_call:
  assumes "AutoMLTrain pol x y f \<in> set (new_events w (snd (train env n t k fp w)))"
  shows "\<exists>c. files w fp = Some c \<and> asfactor env t (parse env c) = Inr f \<and> pol = automl_policy k \<and>
             x = [m \<leftarrow> col_names (parse env c). m \<noteq> t] \<and> y = t"
proof -
  from train_shape [of env n t k fp w] obtain pre where pre:
    "list_all (\<lambda>e. \<not> is_start_run e \<and> \<not> is_end_run e \<and> \<not> is_engine_call e) pre"
    and alt: "(\<exists>x. fst (train env n t k fp w) = Inl x) \<and>
        new_events w (snd (train env n t k fp w)) = pre \<and>
        runs (snd (train env n t k fp w)) = runs w \<and>
        active_run (snd (train env n t k fp w)) = active_run w
      \<or> (\<exists>es c f'. files w fp = Some c \<and> asfactor env t (parse env c) = Inr f' \<and>
           new_events w (snd (train env n t k fp w)) =
             pre @ [StartRun (str_nat (next_run w))] @ es @
               [EndRun (str_nat (next_run w)) (outcome_status (fst (train env n t k fp w)))] \<and>
           list_all (\<lambda>e. \<not> is_start_run e \<and> \<not> is_end_run e \<and>
              (is_engine_call e \<longrightarrow>
                 e = AutoMLTrain (automl_policy k) [m \<leftarrow> col_names (parse env c). m \<noteq> t] t f')) es \<and>
           runs (snd (train env n t k fp w)) \<noteq> [] \<and>
           length (runs (snd (train env n t k fp w))) = Suc (length (runs w)) \<and>
           run_id (last (runs (snd (train env n t k fp w)))) = str_nat (next_run w) \<and>
           status (last (runs (snd (train env n t k fp w)))) =
             outcome_status (fst (train env n t k fp w)) \<and>
           active_run (snd (train env n t k fp w)) = None)"
    by (elim exE conjE) (rule that; assumption)
  from alt show ?thesis
  proof
    assume "(\<exists>x. fst (train env n t k fp w) = Inl x) \<and>
        new_events w (snd (train env n t k fp w)) = pre \<and>
        runs (snd (train env n t k fp w)) = runs w \<and>
        active_run (snd (train env n t k fp w)) = active_run w"
    with assms not_started(2) [OF pre] show ?thesis by simp
  next
    assume "\<exists>es c f'. files w fp = Some c \<and> asfactor env t (parse env c) = Inr f' \<and>
           new_events w (snd (train env n t k fp w)) =
             pre @ [StartRun (str_nat (next_run w))] @ es @
               [EndRun (str_nat (next_run w)) (outcome_status (fst (train env n t k fp w)))] \<and>
           list_all (\<lambda>e. \<not> is_start_run e \<and> \<not> is_end_run e \<and>
              (is_engine_call e \<longrightarrow>
                 e = AutoMLTrain (automl_policy k) [m \<leftarrow> col_names (parse env c). m \<noteq> t] t f')) es \<and>
           runs (snd (train env n t k fp w)) \<noteq> [] \<and>
           length (runs (snd (train env n t k fp w))) = Suc (length (runs w)) \<and>
           run_id (last (runs (snd (train env n t k fp w)))) = str_nat (next_run w) \<and>
           status (last (runs (snd (train env n t k fp w)))) =
             outcome_status (fst (train env n t k fp w)) \<and>
           active_run (snd (train env n t k fp w)) = None"
    then obtain es c f' where r: "files w fp = Some c" "asfactor env t (parse env c) = Inr f'"
      "new_events w (snd (train env n t k fp w)) =
             pre @ [StartRun (str_nat (next_run w))] @ es @
               [EndRun (str_nat (next_run w)) (outcome_status (fst (train env n t k fp w)))]"
      "list_all (\<lambda>e. \<not> is_start_run e \<and> \<not> is_end_run e \<and>
              (is_engine_call e \<longrightarrow>
                 e = AutoMLTrain (automl_policy k) [m \<leftarrow> col_names (parse env c). m \<noteq> t] t f')) es"
      by (elim exE conjE) (rule that; assumption)
    from assms r(3) have "AutoMLTrain pol x y f \<in> set (pre @ [StartRun (str_nat (next_run w))] @ es @
               [EndRun (str_nat (next_run w)) (outcome_status (fst (train env n t k fp w)))])"
      by simp
    from engine_call_in [OF pre r(4) this] r(1,2) show ?thesis by simp
  qed
qed

lemma main_engine_call:
  assumes "AutoMLTrain pol x y f \<in> set (new_events w (snd (main env n t k w)))"
  shows "\<exists>c. files w train_csv = Some c \<and> asfactor env t (parse env c) = Inr f \<and> pol = automl_policy k \<and>
             x = [m \<leftarrow> col_names (parse env c). m \<noteq> t] \<and> y = t"
proof -
  from main_shape [of env n t k w] obtain pre where pre:
    "list_all (\<lambda>e. \<not> is_start_run e \<and> \<not> is_end_run e \<and> \<not> is_engine_call e) pre"
    and alt: "(\<exists>x. fst (main env n t k w) = Inl x) \<and>
        new_events w (snd (main env n t k w)) = pre \<and>
        runs (snd (main env n t k w)) = runs w \<and>
        active_run (snd (main env n t k w)) = active_run w
      \<or> (\<exists>es c f'. files w train_csv = Some c \<and> asfactor env t (parse env c) = Inr f' \<and>
           new_events w (snd (main env n t k w)) =
             pre @ [StartRun (str_nat (next_run w))] @ es @
               [EndRun (str_nat (next_run w)) (outcome_status (fst (main env n t k w)))] \<and>
           list_all (\<lambda>e. \<not> is_start_run e \<and> \<not> is_end_run e \<and>
              (is_engine_call e \<longrightarrow>
                 e = AutoMLTrain (automl_policy k) [m \<leftarrow> col_names (parse env c). m \<noteq> t] t f')) es \<and>
           runs (snd (main env n t k w)) \<noteq> [] \<and>
           length (runs (snd (main env n t k w))) = Suc (length (runs w)) \<and>
           run_id (last (runs (snd (main env n t k w)))) = str_nat (next_run w) \<and>
           status (last (runs (snd (main env n t k w)))) =
             outcome_status (fst (main env n t k w)) \<and>
           active_run (snd (main env n t k w)) = None)"
    by (elim exE conjE) (rule that; assumption)
  from alt show ?thesis
  proof
    assume "(\<exists>x. fst (main env n t k w) = Inl x) \<and>
        new_events w (snd (main env n t k w)) = pre \<and>
        runs (snd (main env n t k w)) = runs w \<and>
        active_run (snd (main env n t k w)) = active_run w"
    with assms not_started(2) [OF pre] show ?thesis by simp
  next
    assume "\<exists>es c f'. files w train_csv = Some c \<and> asfactor env t (parse env c) = Inr f' \<and>
           new_events w (snd (main env n t k w)) =
             pre @ [StartRun (str_nat (next_run w))] @ es @
               [EndRun (str_nat (next_run w)) (outcome_status (fst (main env n t k w)))] \<and>
           list_all (\<lambda>e. \<not> is_start_run e \<and> \<not> is_end_run e \<and>
              (is_engine_call e \<longrightarrow>
                 e = AutoMLTrain (automl_policy k) [m \<leftarrow> col_names (parse env c). m \<noteq> t] t f')) es \<and>
           runs (snd (main env n t k w)) \<noteq> [] \<and>
           length (runs (snd (main env n t k w))) = Suc (length (runs w)) \<and>
           run_id (last (runs (snd (main env n t k w)))) = str_nat (next_run w) \<and>
           status (last (runs (snd (main env n t k w)))) =
             outcome_status (fst (main env n t k w)) \<and>
           active_run (snd (main env n t k w)) = None"
    then obtain es c f' where r: "files w train_csv = Some c" "asfactor env t (parse env c) = Inr f'"
      "new_events w (snd (main env n t k w)) =
             pre @ [StartRun (str_nat (next_run w))] @ es @
               [EndRun (str_nat (next_run w)) (outcome_status (fst (main env n t k w)))]"
      "list_all (\<lambda>e. \<not> is_start_run e \<and> \<not> is_end_run e \<and>
              (is_engine_call e \<longrightarrow>
                 e = AutoMLTrain (automl_policy k) [m \<leftarrow> col_names (parse env c). m \<noteq> t] t f')) es"
      by (elim exE conjE) (rule that; assumption)
    from assms r(3) have "AutoMLTrain pol x y f \<in> set (pre @ [StartRun (str_nat (next_run w))] @ es @
               [EndRun (str_nat (next_run w)) (outcome_status (fst (main env n t k w)))])"
      by simp
    from engine_call_in [OF pre r(4) this] r(1,2) show ?thesis by simp
  qed
qed

text \<open>What is run by a closed term: every definition of the model.\<close>

lemmas run_defs = start_run_def update_run_def current_run_def log_artifact_def log_metric_def
  log_model_def get_artifact_uri_def active_run_id_def end_run_def with_run_def
  run_artifact_uri_def

lemmas path_defs = dirname_def path_head_def rstrip_slash_def basename_def path_join_def
  suffix_to_prefix str_nat.simps digit_def mlruns_path_def train_csv_def train_col_types_json_def

lemmas eval_defs = train_def train_load_def train_run_def train_experiment_setup_def
  save_leaderboard_def main_def main_load_def main_run_def main_experiment_setup_def
  io_defs op_defs to_csv_def automl_train_def emit_def run_defs path_defs new_events_def
  example_world_def example_env_def example_aml_def failing_env_def registered_world_def
  readonly_env_def automl_policy_def asfactor_def col_names_def types_def exists_at_def Let_def

subsection \<open>The column types on disk\<close>

lemma with_run_keeps:
  assumes body: "\<And>w1. active_run w1 = Some (str_nat (next_run w)) \<Longrightarrow>
      active_run (snd (body (str_nat (next_run w)) w1)) = Some (str_nat (next_run w)) \<and>
      map run_id (runs (snd (body (str_nat (next_run w)) w1))) = map run_id (runs w1) \<and>
      experiments (snd (body (str_nat (next_run w)) w1)) = experiments w1 \<and>
      (\<forall>p. last p \<noteq> CHR ''v'' \<longrightarrow> files (snd (body (str_nat (next_run w)) w1)) p = files w1 p) \<and>
      (\<exists>es. trace (snd (body (str_nat (next_run w)) w1)) = trace w1 @ es \<and> list_all P es)"
    and "last p \<noteq> CHR ''v''"
  shows "files (snd (with_run body w)) p = files w p"
    and "\<exists>rest. trace (snd (with_run body w)) = trace w @ rest"
    and "experiments (snd (with_run body w)) = experiments w"
  using with_run_summary [of w body P, OF body] assms(2) by auto

lemma train_snapshot:
  assumes "files w fp = Some c" "writable env (path_join (dirname fp) ''train_col_types.json'')"
  shows "files (snd (train env n t k fp w)) (path_join (dirname fp) ''train_col_types.json'') =
           Some (TypesJson (types (parse env c)))"
    and "take 6 (new_events w (snd (train env n t k fp w))) =
           [MakeDirs mlruns_path, SetTrackingUri (''file:'' @ mlruns_path), H2OInit, ImportFile fp,
            WriteFile (path_join (dirname fp) ''train_col_types.json''), AsFactor t]"
proof -
  let ?ctp = "path_join (dirname fp) ''train_col_types.json''"
  let ?T = "train env n t k fp w"
  have "files (snd ?T) ?ctp = Some (TypesJson (types (parse env c))) \<and>
        take 6 (new_events w (snd ?T)) =
           [MakeDirs mlruns_path, SetTrackingUri (''file:'' @ mlruns_path), H2OInit, ImportFile fp,
            WriteFile ?ctp, AsFactor t]"
  proof (cases "asfactor env t (parse env c)")
    case (Inl x)
    from train_bad_target [OF assms Inl, of n k] show ?thesis by auto
  next
    case (Inr f')
    let ?body = "train_run env t k fp ?ctp [m \<leftarrow> col_names (parse env c). m \<noteq> t] f'"
    from train_ok_unfold [OF assms Inr, of n k] obtain e :: mlflow_experiment and w1 where u:
      "train env n t k fp w = with_run ?body w1"
      "trace w1 = trace w @ [MakeDirs mlruns_path, SetTrackingUri (''file:'' @ mlruns_path), H2OInit,
                             ImportFile fp, WriteFile ?ctp, AsFactor t] @
                    (if map_of (experiments w) n = None
                     then [CreateExperiment n, SetExperiment n]
                     else [CreateExperiment n, GetExperimentByName n, SetExperiment n])"
      "files w1 = (files w)(?ctp \<mapsto> TypesJson (types (parse env c)))"
      by (elim exE conjE) (rule that; assumption)
    have ne: "last ?ctp \<noteq> CHR ''v''" by simp
    have "files (snd (with_run ?body w1)) ?ctp = files w1 ?ctp"
      by (rule with_run_keeps(1) [OF train_run_body ne])
    moreover have "\<exists>rest. trace (snd (with_run ?body w1)) = trace w1 @ rest"
      by (rule with_run_keeps(2) [OF train_run_body ne])
    ultimately show ?thesis
      using u by (auto simp add: new_events_def)
  qed
  then show "files (snd ?T) ?ctp = Some (TypesJson (types (parse env c)))"
    and "take 6 (new_events w (snd ?T)) =
           [MakeDirs mlruns_path, SetTrackingUri (''file:'' @ mlruns_path), H2OInit, ImportFile fp,
            WriteFile ?ctp, AsFactor t]"
    by simp_all
qed

lemma main_snapshot:
  assumes "files w train_csv = Some c" "writable env train_col_types_json"
  shows "files (snd (main env n t k w)) train_col_types_json =
           Some (TypesJson (types (parse env c)))"
    and "take 7 (new_events w (snd (main env n t k w))) =
           [H2OInit, CreateExperiment n, GetExperimentByName n, SetExperiment n,
            ImportFile train_csv, WriteFile train_col_types_json, AsFactor t]"
proof -
  let ?T = "main env n t k w"
  have "files (snd ?T) train_col_types_json = Some (TypesJson (types (parse env c))) \<and>
        take 7 (new_events w (snd ?T)) =
           [H2OInit, CreateExperiment n, GetExperimentByName n, SetExperiment n,
            ImportFile train_csv, WriteFile train_col_types_json, AsFactor t]"
  proof (cases "asfactor env t (parse env c)")
    case (Inl x)
    from main_bad_target [OF assms Inl, of n k] show ?thesis by auto
  next
    case (Inr f')
    from main_ok_unfold [OF assms Inr, of n k] obtain e :: mlflow_experiment and w1 where u:
      "main env n t k w =
         with_run (main_run env t k (experiment_id e) [m \<leftarrow> col_names (parse env c). m \<noteq> t] f') w1"
      "trace w1 = trace w @ [H2OInit, CreateExperiment n, GetExperimentByName n, SetExperiment n,
                             ImportFile train_csv, WriteFile train_col_types_json, AsFactor t]"
      "files w1 = (files w)(train_col_types_json \<mapsto> TypesJson (types (parse env c)))"
      by (elim exE conjE) (rule that; assumption)
    let ?body = "main_run env t k (experiment_id e) [m \<leftarrow> col_names (parse env c). m \<noteq> t] f'"
    have ne: "last train_col_types_json \<noteq> CHR ''v''" by (simp add: train_col_types_json_def)
    have "files (snd (with_run ?body w1)) train_col_types_json = files w1 train_col_types_json"
      by (rule with_run_keeps(1) [OF main_run_body ne])
    moreover have "\<exists>rest. trace (snd (with_run ?body w1)) = trace w1 @ rest"
      by (rule with_run_keeps(2) [OF main_run_body ne])
    ultimately show ?thesis
      using u by (auto simp add: new_events_def)
  qed
  then show "files (snd ?T) train_col_types_json = Some (TypesJson (types (parse env c)))"
    and "take 7 (new_events w (snd ?T)) =
           [H2OInit, CreateExperiment n, GetExperimentByName n, SetExperiment n,
            ImportFile train_csv, WriteFile train_col_types_json, AsFactor t]"
    by simp_all
qed

subsection \<open>Runs that succeed\<close>

lemma with_run_started:
  "(\<exists>e. with_run body w = (Inl e, w)) \<or>
   (\<exists>w1 r. active_run w = None \<and> active_run w1 = Some (str_nat (next_run w)) \<and>
      trace w1 = trace w @ [StartRun (str_nat (next_run w))] \<and>
      files w1 = files w \<and> experiments w1 = experiments w \<and>
      runs w1 = runs w @ [r] \<and> run_id r = str_nat (next_run w) \<and>
      artifacts r = Map.empty \<and> metrics r = Map.empty \<and>
      with_run body w =
        (fst (body (str_nat (next_run w)) w1),
         end_run (outcome_status (fst (body (str_nat (next_run w)) w1)))
           (snd (body (str_nat (next_run w)) w1))))"
proof -
  from start_run_cases [of w] show ?thesis
  proof
    assume "\<exists>e. start_run w = (Inl e, w)"
    then show ?thesis by (auto simp add: with_run_def)
  next
    assume "\<exists>w1 r. start_run w = (Inr (str_nat (next_run w)), w1) \<and> active_run w = None \<and>
      active_run w1 = Some (str_nat (next_run w)) \<and>
      trace w1 = trace w @ [StartRun (str_nat (next_run w))] \<and>
      files w1 = files w \<and> experiments w1 = experiments w \<and>
      runs w1 = runs w @ [r] \<and> run_id r = str_nat (next_run w) \<and> status r = RUNNING \<and>
      artifacts r = Map.empty \<and> metrics r = Map.empty"
    then obtain w1 r where s: "start_run w = (Inr (str_nat (next_run w)), w1)"
      "active_run w = None" "active_run w1 = Some (str_nat (next_run w))"
      "trace w1 = trace w @ [StartRun (str_nat (next_run w))]"
      "files w1 = files w" "experiments w1 = experiments w"
      "runs w1 = runs w @ [r]" "run_id r = str_nat (next_run w)"
      "artifacts r = Map.empty" "metrics r = Map.empty"
      by (elim exE conjE) (rule that; assumption)
    have "with_run body w =
        (fst (body (str_nat (next_run w)) w1),
         end_run (outcome_status (fst (body (str_nat (next_run w)) w1)))
           (snd (body (str_nat (next_run w)) w1)))"
      using s(1)
      by (cases "body (str_nat (next_run w)) w1"; cases "fst (body (str_nat (next_run w)) w1)")
         (simp_all add: with_run_def outcome_status_def)
    with s show ?thesis by blast
  qed
qed

lemma train_run_success:
  assumes "active_run w = Some rid"
    and "fst (train_run env t k fp ctp preds f rid0 w) = Inr ()"
  shows "\<exists>c1 c2 a m u. files w fp = Some c1 \<and> files w ctp = Some c2 \<and>
      automl env (automl_policy k) preds t f = Inr a \<and> leader a = Some m \<and>
      run_artifact_uri w rid = Some u \<and>
      trace (snd (train_run env t k fp ctp preds f rid0 w)) =
        trace w @ [LogArtifact fp ''input_data'', LogArtifact ctp ''input_data'',
                   AutoMLTrain (automl_policy k) preds t f,
                   LogMetric ''log_loss'' (logloss m), LogMetric ''AUC'' (auc m),
                   LogModel ''model'', GetArtifactUri ''model''] @
          (if prefix ''file:/'' (u @ ''/model'')
           then [MakeDirs (replace ''file:'' [] (u @ ''/model'')),
                 ToCsv (path_join (replace ''file:'' [] (u @ ''/model'')) ''leaderboard.csv'')]
           else []) \<and>
      files (snd (train_run env t k fp ctp preds f rid0 w)) =
        (if prefix ''file:/'' (u @ ''/model'')
         then (files w)(path_join (replace ''file:'' [] (u @ ''/model'')) ''leaderboard.csv'' \<mapsto>
                 Csv (fst (leaderboard a) # snd (leaderboard a)))
         else files w) \<and>
      active_run (snd (train_run env t k fp ctp preds f rid0 w)) = Some rid \<and>
      runs (snd (train_run env t k fp ctp preds f rid0 w)) =
        map (\<lambda>r. if run_id r = rid
                 then r\<lparr>artifacts := (artifacts r)
                          (path_join ''input_data'' (basename fp) \<mapsto> c1,
                           path_join ''input_data'' (basename ctp) \<mapsto> c2,
                           ''model'' \<mapsto> ModelFiles m),
                        metrics := (metrics r)(''log_loss'' \<mapsto> logloss m, ''AUC'' \<mapsto> auc m)\<rparr>
                 else r) (runs w)"
  using assms
  by (auto simp add: train_run_def save_leaderboard_def io_defs active_simps makedirs_def
        to_csv_def automl_train_def Let_def
      split: option.splits sum.splits if_splits)

lemma main_run_success:
  assumes "active_run w = Some rid"
    and "fst (main_run env t k x preds f rid0 w) = Inr ()"
  shows "\<exists>a m u. automl env (automl_policy k) preds t f = Inr a \<and> leader a = Some m \<and>
      run_artifact_uri w rid = Some u \<and>
      writable env (''mlruns/'' @ x @ ''/'' @ rid @ ''/artifacts/model/leaderboard.csv'') \<and>
      trace (snd (main_run env t k x preds f rid0 w)) =
        trace w @ [AutoMLTrain (automl_policy k) preds t f,
                   LogMetric ''log_loss'' (logloss m), LogMetric ''AUC'' (auc m),
                   LogModel ''model'', GetArtifactUri ''model'',
                   ToCsv (''mlruns/'' @ x @ ''/'' @ rid @ ''/artifacts/model/leaderboard.csv'')] \<and>
      files (snd (main_run env t k x preds f rid0 w)) =
        (files w)(''mlruns/'' @ x @ ''/'' @ rid @ ''/artifacts/model/leaderboard.csv'' \<mapsto>
                 Csv (fst (leaderboard a) # snd (leaderboard a))) \<and>
      active_run (snd (main_run env t k x preds f rid0 w)) = Some rid \<and>
      runs (snd (main_run env t k x preds f rid0 w)) =
        map (\<lambda>r. if run_id r = rid
                 then r\<lparr>artifacts := (artifacts r)(''model'' \<mapsto> ModelFiles m),
                        metrics := (metrics r)(''log_loss'' \<mapsto> logloss m, ''AUC'' \<mapsto> auc m)\<rparr>
                 else r) (runs w)"
  using assms
  by (auto simp add: main_run_def io_defs active_simps active_run_id_def
        to_csv_def automl_train_def Let_def
      split: option.splits sum.splits if_splits)

lemma train_run_skips:
  assumes "active_run w = Some rid"
    and "GetArtifactUri ''model'' \<in> set (new_events w (snd (train_run env t k fp ctp preds f rid0 w)))"
    and "run_artifact_uri w rid = Some u" "\<not> prefix ''file:/'' (u @ ''/model'')"
  shows "fst (train_run env t k fp ctp preds f rid0 w) = Inr () \<and>
         files (snd (train_run env t k fp ctp preds f rid0 w)) = files w \<and>
         filter is_csv_write (new_events w (snd (train_run env t k fp ctp preds f rid0 w))) = []"
  using assms
  by (auto simp add: train_run_def save_leaderboard_def io_defs active_simps makedirs_def
        to_csv_def automl_train_def Let_def new_events_def
      split: option.splits sum.splits if_splits)

lemma run_artifact_uri_files [simp]:
  "run_artifact_uri (w\<lparr>files := fs\<rparr>) r = run_artifact_uri w r"
  by (simp add: run_artifact_uri_def)

lemma run_bodies_keep_uri:
  assumes "active_run w = Some rid"
  shows "run_artifact_uri (snd (train_run env t k fp ctp preds f rid0 w)) r = run_artifact_uri w r"
    and "run_artifact_uri (snd (main_run env t k x preds f rid0 w)) r = run_artifact_uri w r"
  using assms
  by (auto simp add: train_run_def main_run_def save_leaderboard_def io_defs active_simps
        makedirs_def to_csv_def automl_train_def active_run_id_def Let_def
      split: option.splits sum.splits if_splits)

lemma run_artifact_uri_end_run [simp]:
  "run_artifact_uri (end_run st w) r = run_artifact_uri w r"
proof (cases "active_run w")
  case None
  then show ?thesis by (simp add: end_run_def)
next
  case (Some rid)
  then have "run_artifact_uri (end_run st w) r =
      run_artifact_uri (update_run rid (\<lambda>r. r\<lparr>status := st\<rparr>) w) r"
    by (simp add: end_run_def run_artifact_uri_def)
  then show ?thesis by simp
qed

text \<open>Either \<open>train\<close> fails before a run exists, having made only calls of the set-up, or it
  starts the run \<open>rid\<close> in a world \<open>w1\<close> and is the body of the run followed by its end.\<close>

lemma train_cases:
  fixes env n t k fp w
  defines "ctp \<equiv> path_join (dirname fp) ''train_col_types.json''"
    and "rid \<equiv> str_nat (next_run w)" and "T \<equiv> train env n t k fp w"
  shows "((\<exists>x. fst T = Inl x) \<and>
          set (new_events w (snd T)) \<subseteq>
            {MakeDirs mlruns_path, SetTrackingUri (''file:'' @ mlruns_path), H2OInit, ImportFile fp,
             WriteFile ctp, AsFactor t, CreateExperiment n, GetExperimentByName n, SetExperiment n}) \<or>
    (\<exists>c f' w1 r0 pre. files w fp = Some c \<and> writable env ctp \<and> asfactor env t (parse env c) = Inr f' \<and>
       set pre \<subseteq>
            {MakeDirs mlruns_path, SetTrackingUri (''file:'' @ mlruns_path), H2OInit, ImportFile fp,
             WriteFile ctp, AsFactor t, CreateExperiment n, GetExperimentByName n, SetExperiment n} \<and>
       trace w1 = trace w @ pre @ [StartRun rid] \<and> active_run w1 = Some rid \<and>
       files w1 = (files w)(ctp \<mapsto> TypesJson (types (parse env c))) \<and>
       runs w1 = runs w @ [r0] \<and> run_id r0 = rid \<and>
       artifacts r0 = Map.empty \<and> metrics r0 = Map.empty \<and>
       T = (fst (train_run env t k fp ctp [m \<leftarrow> col_names (parse env c). m \<noteq> t] f' rid w1),
            end_run (outcome_status
                       (fst (train_run env t k fp ctp [m \<leftarrow> col_names (parse env c). m \<noteq> t] f' rid w1)))
              (snd (train_run env t k fp ctp [m \<leftarrow> col_names (parse env c). m \<noteq> t] f' rid w1))))"
proof (cases "files w fp")
  case None
  from train_missing [OF None, of env n t k] show ?thesis
    unfolding T_def by auto
next
  case (Some c)
  show ?thesis
  proof (cases "writable env ctp")
    case False
    from train_unwritable [OF Some False [unfolded ctp_def], of n t k, folded ctp_def] show ?thesis
      unfolding T_def by auto
  next
    case True
    show ?thesis
    proof (cases "asfactor env t (parse env c)")
      case (Inl x)
      from train_bad_target [OF Some True [unfolded ctp_def] Inl, of n k, folded ctp_def] show ?thesis
        unfolding T_def by auto
    next
      case (Inr f')
      let ?body = "train_run env t k fp ctp [m \<leftarrow> col_names (parse env c). m \<noteq> t] f'"
      let ?pre = "[MakeDirs mlruns_path, SetTrackingUri (''file:'' @ mlruns_path), H2OInit,
                   ImportFile fp, WriteFile ctp, AsFactor t] @
                  (if map_of (experiments w) n = None
                   then [CreateExperiment n, SetExperiment n]
                   else [CreateExperiment n, GetExperimentByName n, SetExperiment n])"
      from train_ok_unfold [OF Some True [unfolded ctp_def] Inr, of n k, folded ctp_def]
      obtain w0 where u:
        "train env n t k fp w = with_run ?body w0" "trace w0 = trace w @ ?pre"
        "files w0 = (files w)(ctp \<mapsto> TypesJson (types (parse env c)))"
        "runs w0 = runs w" "next_run w0 = next_run w"
        by (elim exE conjE) (rule that; assumption)
      from with_run_started [of ?body w0] show ?thesis
      proof
        assume "\<exists>e. with_run ?body w0 = (Inl e, w0)"
        with u show ?thesis unfolding T_def by (auto split: if_splits)
      next
        assume "\<exists>w1 r. active_run w0 = None \<and> active_run w1 = Some (str_nat (next_run w0)) \<and>
          trace w1 = trace w0 @ [StartRun (str_nat (next_run w0))] \<and>
          files w1 = files w0 \<and> experiments w1 = experiments w0 \<and>
          runs w1 = runs w0 @ [r] \<and> run_id r = str_nat (next_run w0) \<and>
          artifacts r = Map.empty \<and> metrics r = Map.empty \<and>
          with_run ?body w0 =
            (fst (?body (str_nat (next_run w0)) w1),
             end_run (outcome_status (fst (?body (str_nat (next_run w0)) w1)))
               (snd (?body (str_nat (next_run w0)) w1)))"
        then obtain w1 r0 where s: "active_run w1 = Some (str_nat (next_run w0))"
          "trace w1 = trace w0 @ [StartRun (str_nat (next_run w0))]"
          "files w1 = files w0" "runs w1 = runs w0 @ [r0]" "run_id r0 = str_nat (next_run w0)"
          "artifacts r0 = Map.empty" "metrics r0 = Map.empty"
          "with_run ?body w0 =
            (fst (?body (str_nat (next_run w0)) w1),
             end_run (outcome_status (fst (?body (str_nat (next_run w0)) w1)))
               (snd (?body (str_nat (next_run w0)) w1)))"
          by (elim exE conjE) (rule that; assumption)
        have "set ?pre \<subseteq>
            {MakeDirs mlruns_path, SetTrackingUri (''file:'' @ mlruns_path), H2OInit, ImportFile fp,
             WriteFile ctp, AsFactor t, CreateExperiment n, GetExperimentByName n, SetExperiment n}"
          by auto
        with s u Some True Inr show ?thesis
          unfolding T_def rid_def
          by (intro disjI2 exI [of _ c] exI [of _ f'] exI [of _ w1] exI [of _ r0] exI [of _ ?pre])
             simp
      qed
    qed
  qed
qed

lemma main_cases:
  fixes env n t k w
  defines "rid \<equiv> str_nat (next_run w)" and "T \<equiv> main env n t k w"
  shows "((\<exists>x. fst T = Inl x) \<and>
          set (new_events w (snd T)) \<subseteq>
            {H2OInit, CreateExperiment n, GetExperimentByName n, SetExperiment n,
             ImportFile train_csv, WriteFile train_col_types_json, AsFactor t}) \<or>
    (\<exists>c f' w1 r0 e. files w train_csv = Some c \<and> writable env train_col_types_json \<and>
       asfactor env t (parse env c) = Inr f' \<and>
       map_of (experiments w1) n = Some e \<and>
       trace w1 = trace w @ [H2OInit, CreateExperiment n, GetExperimentByName n, SetExperiment n,
                             ImportFile train_csv, WriteFile train_col_types_json, AsFactor t,
                             StartRun rid] \<and>
       active_run w1 = Some rid \<and>
       files w1 = (files w)(train_col_types_json \<mapsto> TypesJson (types (parse env c))) \<and>
       runs w1 = runs w @ [r0] \<and> run_id r0 = rid \<and>
       artifacts r0 = Map.empty \<and> metrics r0 = Map.empty \<and>
       T = (fst (main_run env t k (experiment_id e) [m \<leftarrow> col_names (parse env c). m \<noteq> t] f' rid w1),
            end_run (outcome_status
                       (fst (main_run env t k (experiment_id e)
                               [m \<leftarrow> col_names (parse env c). m \<noteq> t] f' rid w1)))
              (snd (main_run env t k (experiment_id e)
                      [m \<leftarrow> col_names (parse env c). m \<noteq> t] f' rid w1))))"
proof (cases "files w train_csv")
  case None
  from main_missing [OF None, of env n t k] show ?thesis
    unfolding T_def by auto
next
  case (Some c)
  show ?thesis
  proof (cases "writable env train_col_types_json")
    case False
    from main_unwritable [OF Some False, of n t k] show ?thesis
      unfolding T_def by auto
  next
    case True
    show ?thesis
    proof (cases "asfactor env t (parse env c)")
      case (Inl x)
      from main_bad_target [OF Some True Inl, of n k] show ?thesis
        unfolding T_def by auto
    next
      case (Inr f')
      from main_ok_unfold [OF Some True Inr, of n k]
      obtain e :: mlflow_experiment and w0 where u:
        "main env n t k w =
           with_run (main_run env t k (experiment_id e) [m \<leftarrow> col_names (parse env c). m \<noteq> t] f') w0"
        "trace w0 = trace w @ [H2OInit, CreateExperiment n, GetExperimentByName n, SetExperiment n,
                               ImportFile train_csv, WriteFile train_col_types_json, AsFactor t]"
        "files w0 = (files w)(train_col_types_json \<mapsto> TypesJson (types (parse env c)))"
        "runs w0 = runs w" "next_run w0 = next_run w" "map_of (experiments w0) n = Some e"
        by (elim exE conjE) (rule that; assumption)
      let ?body = "main_run env t k (experiment_id e) [m \<leftarrow> col_names (parse env c). m \<noteq> t] f'"
      from with_run_started [of ?body w0] show ?thesis
      proof
        assume "\<exists>e. with_run ?body w0 = (Inl e, w0)"
        with u show ?thesis unfolding T_def by (auto split: if_splits)
      next
        assume "\<exists>w1 r. active_run w0 = None \<and> active_run w1 = Some (str_nat (next_run w0)) \<and>
          trace w1 = trace w0 @ [StartRun (str_nat (next_run w0))] \<and>
          files w1 = files w0 \<and> experiments w1 = experiments w0 \<and>
          runs w1 = runs w0 @ [r] \<and> run_id r = str_nat (next_run w0) \<and>
          artifacts r = Map.empty \<and> metrics r = Map.empty \<and>
          with_run ?body w0 =
            (fst (?body (str_nat (next_run w0)) w1),
             end_run (outcome_status (fst (?body (str_nat (next_run w0)) w1)))
               (snd (?body (str_nat (next_run w0)) w1)))"
        then obtain w1 r0 where s: "active_run w1 = Some (str_nat (next_run w0))"
          "trace w1 = trace w0 @ [StartRun (str_nat (next_run w0))]"
          "files w1 = files w0" "experiments w1 = experiments w0"
          "runs w1 = runs w0 @ [r0]" "run_id r0 = str_nat (next_run w0)"
          "artifacts r0 = Map.empty" "metrics r0 = Map.empty"
          "with_run ?body w0 =
            (fst (?body (str_nat (next_run w0)) w1),
             end_run (outcome_status (fst (?body (str_nat (next_run w0)) w1)))
               (snd (?body (str_nat (next_run w0)) w1)))"
          by (elim exE conjE) (rule that; assumption)
        with u Some True Inr show ?thesis
          unfolding T_def rid_def
          by (intro disjI2 exI [of _ c] exI [of _ f'] exI [of _ w1] exI [of _ r0] exI [of _ e])
             simp
      qed
    qed
  qed
qed

subsection \<open>Artifact names\<close>




subsection \<open>Operations that succeed\<close>

lemma train_success:
  fixes env n t k fp w
  defines "ctp \<equiv> path_join (dirname fp) ''train_col_types.json''"
    and "rid \<equiv> str_nat (next_run w)" and "T \<equiv> train env n t k fp w"
  assumes ok: "fst T = Inr ()"
  shows "\<exists>c f' a m u pre c1.
     files w fp = Some c \<and> writable env ctp \<and> asfactor env t (parse env c) = Inr f' \<and>
     automl env (automl_policy k) [x \<leftarrow> col_names (parse env c). x \<noteq> t] t f' = Inr a \<and>
     leader a = Some m \<and>
     ((files w)(ctp \<mapsto> TypesJson (types (parse env c)))) fp = Some c1 \<and>
     run_artifact_uri (snd T) rid = Some u \<and>
     set pre \<subseteq>
       {MakeDirs mlruns_path, SetTrackingUri (''file:'' @ mlruns_path), H2OInit, ImportFile fp,
        WriteFile ctp, AsFactor t, CreateExperiment n, GetExperimentByName n, SetExperiment n} \<and>
     new_events w (snd T) =
       pre @ [StartRun rid, LogArtifact fp ''input_data'', LogArtifact ctp ''input_data'',
              AutoMLTrain (automl_policy k) [x \<leftarrow> col_names (parse env c). x \<noteq> t] t f',
              LogMetric ''log_loss'' (logloss m), LogMetric ''AUC'' (auc m),
              LogModel ''model'', GetArtifactUri ''model''] @
         (if prefix ''file:/'' (u @ ''/model'')
          then [MakeDirs (replace ''file:'' [] (u @ ''/model'')),
                ToCsv (path_join (replace ''file:'' [] (u @ ''/model'')) ''leaderboard.csv'')]
          else []) @
         [EndRun rid FINISHED] \<and>
     files (snd T) =
       (if prefix ''file:/'' (u @ ''/model'')
        then (files w)(ctp \<mapsto> TypesJson (types (parse env c)),
               path_join (replace ''file:'' [] (u @ ''/model'')) ''leaderboard.csv'' \<mapsto>
                 Csv (fst (leaderboard a) # snd (leaderboard a)))
        else (files w)(ctp \<mapsto> TypesJson (types (parse env c)))) \<and>
     runs (snd T) \<noteq> [] \<and> run_id (last (runs (snd T))) = rid \<and>
     status (last (runs (snd T))) = FINISHED \<and>
     artifacts (last (runs (snd T))) =
       [path_join ''input_data'' (basename fp) \<mapsto> c1,
        path_join ''input_data'' (basename ctp) \<mapsto> TypesJson (types (parse env c)),
        ''model'' \<mapsto> ModelFiles m] \<and>
     metrics (last (runs (snd T))) = [''log_loss'' \<mapsto> logloss m, ''AUC'' \<mapsto> auc m]"
proof -
  from train_cases [of env n t k fp w, folded ctp_def rid_def T_def] ok
  obtain c f' w1 r0 pre where s: "files w fp = Some c" "writable env ctp"
    "asfactor env t (parse env c) = Inr f'"
    "set pre \<subseteq>
       {MakeDirs mlruns_path, SetTrackingUri (''file:'' @ mlruns_path), H2OInit, ImportFile fp,
        WriteFile ctp, AsFactor t, CreateExperiment n, GetExperimentByName n, SetExperiment n}"
    "trace w1 = trace w @ pre @ [StartRun rid]" "active_run w1 = Some rid"
    "files w1 = (files w)(ctp \<mapsto> TypesJson (types (parse env c)))"
    "runs w1 = runs w @ [r0]" "run_id r0 = rid"
    "artifacts r0 = Map.empty" "metrics r0 = Map.empty"
    "T = (fst (train_run env t k fp ctp [m \<leftarrow> col_names (parse env c). m \<noteq> t] f' rid w1),
          end_run (outcome_status
                     (fst (train_run env t k fp ctp [m \<leftarrow> col_names (parse env c). m \<noteq> t] f' rid w1)))
            (snd (train_run env t k fp ctp [m \<leftarrow> col_names (parse env c). m \<noteq> t] f' rid w1)))"
    by auto
  let ?B = "train_run env t k fp ctp [m \<leftarrow> col_names (parse env c). m \<noteq> t] f' rid w1"
  from s(12) ok have b: "fst ?B = Inr ()" by simp
  with s(12) have T: "snd T = end_run FINISHED (snd ?B)" by (simp add: outcome_status_def)
  from train_run_success [OF s(6) b] obtain c1 c2 a m u where r:
    "files w1 fp = Some c1" "files w1 ctp = Some c2"
    "automl env (automl_policy k) [m \<leftarrow> col_names (parse env c). m \<noteq> t] t f' = Inr a"
    "leader a = Some m" "run_artifact_uri w1 rid = Some u"
    "trace (snd ?B) =
        trace w1 @ [LogArtifact fp ''input_data'', LogArtifact ctp ''input_data'',
                   AutoMLTrain (automl_policy k) [m \<leftarrow> col_names (parse env c). m \<noteq> t] t f',
                   LogMetric ''log_loss'' (logloss m), LogMetric ''AUC'' (auc m),
                   LogModel ''model'', GetArtifactUri ''model''] @
          (if prefix ''file:/'' (u @ ''/model'')
           then [MakeDirs (replace ''file:'' [] (u @ ''/model'')),
                 ToCsv (path_join (replace ''file:'' [] (u @ ''/model'')) ''leaderboard.csv'')]
           else [])"
    "files (snd ?B) =
        (if prefix ''file:/'' (u @ ''/model'')
         then (files w1)(path_join (replace ''file:'' [] (u @ ''/model'')) ''leaderboard.csv'' \<mapsto>
                 Csv (fst (leaderboard a) # snd (leaderboard a)))
         else files w1)"
    "active_run (snd ?B) = Some rid"
    "runs (snd ?B) =
        map (\<lambda>r. if run_id r = rid
                 then r\<lparr>artifacts := (artifacts r)
                          (path_join ''input_data'' (basename fp) \<mapsto> c1,
                           path_join ''input_data'' (basename ctp) \<mapsto> c2,
                           ''model'' \<mapsto> ModelFiles m),
                        metrics := (metrics r)(''log_loss'' \<mapsto> logloss m, ''AUC'' \<mapsto> auc m)\<rparr>
                 else r) (runs w1)"
    by (elim exE conjE) (rule that; assumption)
  from r(2) s(7) have c2: "c2 = TypesJson (types (parse env c))" by simp
  note e = end_run_active [OF r(8), of FINISHED]
  have uri: "run_artifact_uri (snd T) rid = Some u"
    using T r(5) run_bodies_keep_uri(1) [OF s(6)] by simp
  have ev: "new_events w (snd T) =
       pre @ [StartRun rid, LogArtifact fp ''input_data'', LogArtifact ctp ''input_data'',
              AutoMLTrain (automl_policy k) [x \<leftarrow> col_names (parse env c). x \<noteq> t] t f',
              LogMetric ''log_loss'' (logloss m), LogMetric ''AUC'' (auc m),
              LogModel ''model'', GetArtifactUri ''model''] @
         (if prefix ''file:/'' (u @ ''/model'')
          then [MakeDirs (replace ''file:'' [] (u @ ''/model'')),
                ToCsv (path_join (replace ''file:'' [] (u @ ''/model'')) ''leaderboard.csv'')]
          else []) @
         [EndRun rid FINISHED]"
    using T e(1) r(6) s(5) by (simp add: new_events_def)
  have fl: "files (snd T) =
       (if prefix ''file:/'' (u @ ''/model'')
        then (files w)(ctp \<mapsto> TypesJson (types (parse env c)),
               path_join (replace ''file:'' [] (u @ ''/model'')) ''leaderboard.csv'' \<mapsto>
                 Csv (fst (leaderboard a) # snd (leaderboard a)))
        else (files w)(ctp \<mapsto> TypesJson (types (parse env c))))"
    using T e(2) r(7) s(7) by simp
  have rn: "runs (snd T) \<noteq> []" "run_id (last (runs (snd T))) = rid"
    "status (last (runs (snd T))) = FINISHED"
    "artifacts (last (runs (snd T))) =
       [path_join ''input_data'' (basename fp) \<mapsto> c1,
        path_join ''input_data'' (basename ctp) \<mapsto> TypesJson (types (parse env c)),
        ''model'' \<mapsto> ModelFiles m]"
    "metrics (last (runs (snd T))) = [''log_loss'' \<mapsto> logloss m, ''AUC'' \<mapsto> auc m]"
    using T e(5) r(9) s(8,9,10,11) c2 by simp_all
  from s(1,2,3,4) r(1,3,4) s(7) uri ev fl rn show ?thesis
    by (intro exI [of _ c] exI [of _ f'] exI [of _ a] exI [of _ m] exI [of _ u] exI [of _ pre]
          exI [of _ c1]) simp
qed

lemma main_success:
  fixes env n t k w
  defines "rid \<equiv> str_nat (next_run w)" and "T \<equiv> main env n t k w"
  assumes ok: "fst T = Inr ()"
  shows "\<exists>c f' a m u e.
     files w train_csv = Some c \<and> writable env train_col_types_json \<and>
     asfactor env t (parse env c) = Inr f' \<and>
     automl env (automl_policy k) [x \<leftarrow> col_names (parse env c). x \<noteq> t] t f' = Inr a \<and>
     leader a = Some m \<and>
     map_of (experiments (snd T)) n = Some e \<and>
     run_artifact_uri (snd T) rid = Some u \<and>
     writable env (''mlruns/'' @ experiment_id e @ ''/'' @ rid @ ''/artifacts/model/leaderboard.csv'') \<and>
     new_events w (snd T) =
       [H2OInit, CreateExperiment n, GetExperimentByName n, SetExperiment n,
        ImportFile train_csv, WriteFile train_col_types_json, AsFactor t, StartRun rid,
        AutoMLTrain (automl_policy k) [x \<leftarrow> col_names (parse env c). x \<noteq> t] t f',
        LogMetric ''log_loss'' (logloss m), LogMetric ''AUC'' (auc m),
        LogModel ''model'', GetArtifactUri ''model'',
        ToCsv (''mlruns/'' @ experiment_id e @ ''/'' @ rid @ ''/artifacts/model/leaderboard.csv''),
        EndRun rid FINISHED] \<and>
     files (snd T) =
       (files w)(train_col_types_json \<mapsto> TypesJson (types (parse env c)),
          ''mlruns/'' @ experiment_id e @ ''/'' @ rid @ ''/artifacts/model/leaderboard.csv'' \<mapsto>
            Csv (fst (leaderboard a) # snd (leaderboard a))) \<and>
     runs (snd T) \<noteq> [] \<and> run_id (last (runs (snd T))) = rid \<and>
     status (last (runs (snd T))) = FINISHED \<and>
     artifacts (last (runs (snd T))) = [''model'' \<mapsto> ModelFiles m] \<and>
     metrics (last (runs (snd T))) = [''log_loss'' \<mapsto> logloss m, ''AUC'' \<mapsto> auc m]"
proof -
  from main_cases [of env n t k w, folded rid_def T_def] ok
  obtain c f' w1 r0 e where s: "files w train_csv = Some c" "writable env train_col_types_json"
    "asfactor env t (parse env c) = Inr f'" "map_of (experiments w1) n = Some e"
    "trace w1 = trace w @ [H2OInit, CreateExperiment n, GetExperimentByName n, SetExperiment n,
                           ImportFile train_csv, WriteFile train_col_types_json, AsFactor t,
                           StartRun rid]"
    "active_run w1 = Some rid"
    "files w1 = (files w)(train_col_types_json \<mapsto> TypesJson (types (parse env c)))"
    "runs w1 = runs w @ [r0]" "run_id r0 = rid"
    "artifacts r0 = Map.empty" "metrics r0 = Map.empty"
    "T = (fst (main_run env t k (experiment_id e) [m \<leftarrow> col_names (parse env c). m \<noteq> t] f' rid w1),
          end_run (outcome_status
                     (fst (main_run env t k (experiment_id e)
                             [m \<leftarrow> col_names (parse env c). m \<noteq> t] f' rid w1)))
            (snd (main_run env t k (experiment_id e)
                    [m \<leftarrow> col_names (parse env c). m \<noteq> t] f' rid w1)))"
    by auto
  let ?B = "main_run env t k (experiment_id e) [m \<leftarrow> col_names (parse env c). m \<noteq> t] f' rid w1"
  let ?lb = "''mlruns/'' @ experiment_id e @ ''/'' @ rid @ ''/artifacts/model/leaderboard.csv''"
  from s(12) ok have b: "fst ?B = Inr ()" by simp
  with s(12) have T: "snd T = end_run FINISHED (snd ?B)" by (simp add: outcome_status_def)
  from main_run_success [OF s(6) b] obtain a m u where r:
    "automl env (automl_policy k) [m \<leftarrow> col_names (parse env c). m \<noteq> t] t f' = Inr a"
    "leader a = Some m" "run_artifact_uri w1 rid = Some u" "writable env ?lb"
    "trace (snd ?B) =
        trace w1 @ [AutoMLTrain (automl_policy k) [m \<leftarrow> col_names (parse env c). m \<noteq> t] t f',
                   LogMetric ''log_loss'' (logloss m), LogMetric ''AUC'' (auc m),
                   LogModel ''model'', GetArtifactUri ''model'', ToCsv ?lb]"
    "files (snd ?B) = (files w1)(?lb \<mapsto> Csv (fst (leaderboard a) # snd (leaderboard a)))"
    "active_run (snd ?B) = Some rid"
    "runs (snd ?B) =
        map (\<lambda>r. if run_id r = rid
                 then r\<lparr>artifacts := (artifacts r)(''model'' \<mapsto> ModelFiles m),
                        metrics := (metrics r)(''log_loss'' \<mapsto> logloss m, ''AUC'' \<mapsto> auc m)\<rparr>
                 else r) (runs w1)"
    by (elim exE conjE) (rule that; assumption)
  note e = end_run_active [OF r(7), of FINISHED]
  from main_run_body [OF s(6), of env t k "experiment_id e" "[m \<leftarrow> col_names (parse env c). m \<noteq> t]" f' rid]
  have "experiments (snd ?B) = experiments w1" by blast
  with T e(3) s(4) have ex: "map_of (experiments (snd T)) n = Some e" by simp
  have uri: "run_artifact_uri (snd T) rid = Some u"
    using T r(3) run_bodies_keep_uri(2) [OF s(6)] by simp
  have ev: "new_events w (snd T) =
       [H2OInit, CreateExperiment n, GetExperimentByName n, SetExperiment n,
        ImportFile train_csv, WriteFile train_col_types_json, AsFactor t, StartRun rid,
        AutoMLTrain (automl_policy k) [x \<leftarrow> col_names (parse env c). x \<noteq> t] t f',
        LogMetric ''log_loss'' (logloss m), LogMetric ''AUC'' (auc m),
        LogModel ''model'', GetArtifactUri ''model'', ToCsv ?lb, EndRun rid FINISHED]"
    using T e(1) r(5) s(5) by (simp add: new_events_def)
  have fl: "files (snd T) =
       (files w)(train_col_types_json \<mapsto> TypesJson (types (parse env c)),
          ?lb \<mapsto> Csv (fst (leaderboard a) # snd (leaderboard a)))"
    using T e(2) r(6) s(7) by simp
  have rn: "runs (snd T) \<noteq> []" "run_id (last (runs (snd T))) = rid"
    "status (last (runs (snd T))) = FINISHED"
    "artifacts (last (runs (snd T))) = [''model'' \<mapsto> ModelFiles m]"
    "metrics (last (runs (snd T))) = [''log_loss'' \<mapsto> logloss m, ''AUC'' \<mapsto> auc m]"
    using T e(5) r(8) s(8,9,10,11) by simp_all
  from s(1,2,3) r(1,2,4) ex uri ev fl rn show ?thesis
    by (intro exI [of _ c] exI [of _ f'] exI [of _ a] exI [of _ m] exI [of _ u] exI [of _ e]) simp
qed

lemma no_csv_in_setup:
  assumes "set pre \<subseteq>
       {MakeDirs a, SetTrackingUri b, H2OInit, ImportFile c, WriteFile d, AsFactor e,
        CreateExperiment f, GetExperimentByName g, SetExperiment h}"
  shows "filter is_csv_write pre = []" and "GetArtifactUri x \<notin> set pre"
    and "LogModel y \<notin> set pre"
  using assms by (auto simp add: filter_empty_conv)

lemma train_skip:
  fixes env n t k fp w
  defines "ctp \<equiv> path_join (dirname fp) ''train_col_types.json''"
    and "rid \<equiv> str_nat (next_run w)" and "T \<equiv> train env n t k fp w"
  assumes asked: "GetArtifactUri ''model'' \<in> set (new_events w (snd T))"
    and uri: "run_artifact_uri (snd T) rid = Some u"
    and other: "\<not> prefix ''file:/'' (u @ ''/model'')"
  shows "fst T = Inr () \<and> filter is_csv_write (new_events w (snd T)) = [] \<and>
         last (new_events w (snd T)) = EndRun rid FINISHED \<and>
         status (last (runs (snd T))) = FINISHED \<and>
         (\<exists>c. files w fp = Some c \<and>
              files (snd T) = (files w)(ctp \<mapsto> TypesJson (types (parse env c))))"
proof -
  from train_cases [of env n t k fp w, folded ctp_def rid_def T_def] asked
  obtain c f' w1 r0 pre where s: "files w fp = Some c"
    "set pre \<subseteq>
       {MakeDirs mlruns_path, SetTrackingUri (''file:'' @ mlruns_path), H2OInit, ImportFile fp,
        WriteFile ctp, AsFactor t, CreateExperiment n, GetExperimentByName n, SetExperiment n}"
    "trace w1 = trace w @ pre @ [StartRun rid]" "active_run w1 = Some rid"
    "files w1 = (files w)(ctp \<mapsto> TypesJson (types (parse env c)))"
    "runs w1 = runs w @ [r0]" "run_id r0 = rid"
    "T = (fst (train_run env t k fp ctp [m \<leftarrow> col_names (parse env c). m \<noteq> t] f' rid w1),
          end_run (outcome_status
                     (fst (train_run env t k fp ctp [m \<leftarrow> col_names (parse env c). m \<noteq> t] f' rid w1)))
            (snd (train_run env t k fp ctp [m \<leftarrow> col_names (parse env c). m \<noteq> t] f' rid w1)))"
    by auto
  let ?B = "train_run env t k fp ctp [m \<leftarrow> col_names (parse env c). m \<noteq> t] f' rid w1"
  from train_run_body [OF s(4), of env t k fp ctp "[m \<leftarrow> col_names (parse env c). m \<noteq> t]" f' rid]
  obtain es where b: "active_run (snd ?B) = Some rid"
    "map run_id (runs (snd ?B)) = map run_id (runs w1)" "trace (snd ?B) = trace w1 @ es"
    by (elim exE conjE) (rule that; assumption)
  from s(8) have T: "fst T = fst ?B" "snd T = end_run (outcome_status (fst ?B)) (snd ?B)"
    by simp_all
  note e = end_run_active [OF b(1), of "outcome_status (fst ?B)"]
  have ev: "new_events w (snd T) = pre @ [StartRun rid] @ es @ [EndRun rid (outcome_status (fst ?B))]"
    using T e(1) b(3) s(3) by (simp add: new_events_def)
  with asked no_csv_in_setup(2) [OF s(2)] have "GetArtifactUri ''model'' \<in> set es" by auto
  then have in_body: "GetArtifactUri ''model'' \<in> set (new_events w1 (snd ?B))"
    using b(3) by simp
  have "run_artifact_uri w1 rid = Some u"
    using uri T run_bodies_keep_uri(1) [OF s(4)] by simp
  from train_run_skips [OF s(4) in_body this other]
  have k: "fst ?B = Inr ()" "files (snd ?B) = files w1"
    "filter is_csv_write (new_events w1 (snd ?B)) = []"
    by simp_all
  from k(1) have os: "outcome_status (fst ?B) = FINISHED" by (simp add: outcome_status_def)
  from k(3) b(3) have "filter is_csv_write es = []" by simp
  with ev no_csv_in_setup(1) [OF s(2)] k(1)
  have "filter is_csv_write (new_events w (snd T)) = []"
    and "last (new_events w (snd T)) = EndRun rid FINISHED"
    by (simp_all add: outcome_status_def)
  moreover from b(2) s(6,7) have "runs (snd ?B) \<noteq> [] \<and> run_id (last (runs (snd ?B))) = rid"
    using last_run_id [of "runs (snd ?B)" "runs w" r0] by simp
  then have "status (last (runs (snd T))) = FINISHED"
    using T(2) e(5) os last_run_ended(1) [of "runs (snd ?B)" rid "outcome_status (fst ?B)"]
    by simp
  moreover have "files (snd T) = (files w)(ctp \<mapsto> TypesJson (types (parse env c)))"
    using T e(2) k(2) s(5) by simp
  ultimately show ?thesis
    using T k(1) s(1) by simp
qed

subsection \<open>The check of the input path\<close>

lemma makedirs_keeps_files:
  "files (snd (makedirs p w)) = files w" "experiments (snd (makedirs p w)) = experiments w"
  "runs (snd (makedirs p w)) = runs w"
  by (simp_all add: makedirs_def)



section \<open>Experiment resolution\<close>

text \<open>
  Claim C1. Resolving an experiment name is idempotent. A resolution of the name \<open>n\<close> always
  returns an experiment, and the experiment it returns is the one the registry then holds
  under \<open>n\<close>: the one that was there, with the registry left as it was, or else a new one
  with the next free id, added at the end. A second resolution of \<open>n\<close> on the registry left
  by the first, whatever the process state, returns that same experiment (the same
  \<open>experiment_id\<close>) and leaves the registry as it found it. This holds for the resolution
  of \<open>train\<close> (lines 41 to 47), which returns the id, and for that of \<open>main\<close> (lines 134 to
  140), which returns the experiment.
\<close>

theorem experiment_resolution_idempotent:
  "(\<exists>e. fst (train_experiment_setup n w) = Inr (experiment_id e) \<and>
        map_of (experiments (snd (train_experiment_setup n w))) n = Some e \<and>
        (case map_of (experiments w) n of
           Some e0 \<Rightarrow> e = e0 \<and> experiments (snd (train_experiment_setup n w)) = experiments w
         | None \<Rightarrow> experiment_id e = str_nat (next_experiment w) \<and>
                   experiments (snd (train_experiment_setup n w)) = experiments w @ [(n, e)]) \<and>
        (experiments w2 = experiments (snd (train_experiment_setup n w)) \<longrightarrow>
           map_of (experiments w2) n = Some e \<and>
           fst (train_experiment_setup n w2) = Inr (experiment_id e) \<and>
           experiments (snd (train_experiment_setup n w2)) = experiments w2)) \<and>
   (\<exists>e. fst (main_experiment_setup n w) = Inr (Some e) \<and>
        map_of (experiments (snd (main_experiment_setup n w))) n = Some e \<and>
        (case map_of (experiments w) n of
           Some e0 \<Rightarrow> e = e0 \<and> experiments (snd (main_experiment_setup n w)) = experiments w
         | None \<Rightarrow> experiment_id e = str_nat (next_experiment w) \<and>
                   experiments (snd (main_experiment_setup n w)) = experiments w @ [(n, e)]) \<and>
        (experiments w2 = experiments (snd (main_experiment_setup n w)) \<longrightarrow>
           map_of (experiments w2) n = Some e \<and>
           fst (main_experiment_setup n w2) = Inr (Some e) \<and>
           experiments (snd (main_experiment_setup n w2)) = experiments w2))"
proof (rule conjI)
  from train_experiment_setup_result [of n w] obtain e :: mlflow_experiment and w' where first:
    "train_experiment_setup n w = (Inr (experiment_id e), w')" "map_of (experiments w') n = Some e"
    "experiments w' = (if map_of (experiments w) n = None
                       then experiments w @ [(n, e)] else experiments w)"
    by (elim exE conjE) (rule that; assumption)
  have fresh: "map_of (experiments w) n = None \<Longrightarrow> experiment_id e = str_nat (next_experiment w)"
    using first(1) train_experiment_setup_fresh [of w n] by simp
  have origin: "case map_of (experiments w) n of
           Some e0 \<Rightarrow> e = e0 \<and> experiments w' = experiments w
         | None \<Rightarrow> experiment_id e = str_nat (next_experiment w) \<and>
                   experiments w' = experiments w @ [(n, e)]"
    using first(2,3) fresh by (cases "map_of (experiments w) n") simp_all
  have again: "map_of (experiments w2) n = Some e \<and>
      fst (train_experiment_setup n w2) = Inr (experiment_id e) \<and>
      experiments (snd (train_experiment_setup n w2)) = experiments w2"
    if same: "experiments w2 = experiments (snd (train_experiment_setup n w))"
  proof -
    from same first have known: "map_of (experiments w2) n = Some e" by simp
    from train_experiment_setup_result [of n w2]
    obtain e2 :: mlflow_experiment and w2' where second:
      "train_experiment_setup n w2 = (Inr (experiment_id e2), w2')"
      "map_of (experiments w2') n = Some e2"
      "experiments w2' = (if map_of (experiments w2) n = None
                          then experiments w2 @ [(n, e2)] else experiments w2)"
      by (elim exE conjE) (rule that; assumption)
    from known second have "experiments w2' = experiments w2" and "e2 = e" by simp_all
    with known second show ?thesis by simp
  qed
  have sw: "snd (train_experiment_setup n w) = w'" using first(1) by simp
  from first origin again [unfolded sw]
  show "\<exists>e. fst (train_experiment_setup n w) = Inr (experiment_id e) \<and>
        map_of (experiments (snd (train_experiment_setup n w))) n = Some e \<and>
        (case map_of (experiments w) n of
           Some e0 \<Rightarrow> e = e0 \<and> experiments (snd (train_experiment_setup n w)) = experiments w
         | None \<Rightarrow> experiment_id e = str_nat (next_experiment w) \<and>
                   experiments (snd (train_experiment_setup n w)) = experiments w @ [(n, e)]) \<and>
        (experiments w2 = experiments (snd (train_experiment_setup n w)) \<longrightarrow>
           map_of (experiments w2) n = Some e \<and>
           fst (train_experiment_setup n w2) = Inr (experiment_id e) \<and>
           experiments (snd (train_experiment_setup n w2)) = experiments w2)"
    unfolding sw by (intro exI [of _ e]) simp
next
  from main_experiment_setup_result [of n w] obtain e :: mlflow_experiment and w' where first:
    "main_experiment_setup n w = (Inr (Some e), w')" "map_of (experiments w') n = Some e"
    "experiments w' = (if map_of (experiments w) n = None
                       then experiments w @ [(n, e)] else experiments w)"
    by (elim exE conjE) (rule that; assumption)
  have fresh: "map_of (experiments w) n = None \<Longrightarrow> experiment_id e = str_nat (next_experiment w)"
    using first(1) main_experiment_setup_fresh [of w n] by simp
  have origin: "case map_of (experiments w) n of
           Some e0 \<Rightarrow> e = e0 \<and> experiments w' = experiments w
         | None \<Rightarrow> experiment_id e = str_nat (next_experiment w) \<and>
                   experiments w' = experiments w @ [(n, e)]"
    using first(2,3) fresh by (cases "map_of (experiments w) n") simp_all
  have again: "map_of (experiments w2) n = Some e \<and>
      fst (main_experiment_setup n w2) = Inr (Some e) \<and>
      experiments (snd (main_experiment_setup n w2)) = experiments w2"
    if same: "experiments w2 = experiments (snd (main_experiment_setup n w))"
  proof -
    from same first have known: "map_of (experiments w2) n = Some e" by simp
    from main_experiment_setup_result [of n w2]
    obtain e2 :: mlflow_experiment and w2' where second:
      "main_experiment_setup n w2 = (Inr (Some e2), w2')"
      "map_of (experiments w2') n = Some e2"
      "experiments w2' = (if map_of (experiments w2) n = None
                          then experiments w2 @ [(n, e2)] else experiments w2)"
      by (elim exE conjE) (rule that; assumption)
    from known second have "experiments w2' = experiments w2" and "e2 = e" by simp_all
    with known second show ?thesis by simp
  qed
  have sw: "snd (main_experiment_setup n w) = w'" using first(1) by simp
  from first origin again [unfolded sw]
  show "\<exists>e. fst (main_experiment_setup n w) = Inr (Some e) \<and>
        map_of (experiments (snd (main_experiment_setup n w))) n = Some e \<and>
        (case map_of (experiments w) n of
           Some e0 \<Rightarrow> e = e0 \<and> experiments (snd (main_experiment_setup n w)) = experiments w
         | None \<Rightarrow> experiment_id e = str_nat (next_experiment w) \<and>
                   experiments (snd (main_experiment_setup n w)) = experiments w @ [(n, e)]) \<and>
        (experiments w2 = experiments (snd (main_experiment_setup n w)) \<longrightarrow>
           map_of (experiments w2) n = Some e \<and>
           fst (main_experiment_setup n w2) = Inr (Some e) \<and>
           experiments (snd (main_experiment_setup n w2)) = experiments w2)"
    unfolding sw by (intro exI [of _ e]) simp
qed

text \<open>The name \<open>exp\<close> on the empty store, resolved again by a new process: the experiment
  \<open>0\<close> is created by the first resolution and returned by both, and the registry holds it
  once. The name \<open>exp\<close> on the store where it has the id \<open>7\<close>: that experiment, and the
  registry as it was.\<close>

theorem experiment_resolution_idempotent_witness:
  "fst (train_experiment_setup ''exp'' example_world) = Inr ''0'' \<and>
   experiments (snd (train_experiment_setup ''exp'' example_world)) =
     [(''exp'', \<lparr>experiment_id = ''0'', artifact_location = ''file:///cwd/mlruns/0''\<rparr>)] \<and>
   experiments (restart ''file:///cwd/mlruns'' (snd (train_experiment_setup ''exp'' example_world))) =
     experiments (snd (train_experiment_setup ''exp'' example_world)) \<and>
   fst (train_experiment_setup ''exp''
          (restart ''file:///cwd/mlruns'' (snd (train_experiment_setup ''exp'' example_world)))) =
     Inr ''0'' \<and>
   experiments (snd (train_experiment_setup ''exp''
          (restart ''file:///cwd/mlruns'' (snd (train_experiment_setup ''exp'' example_world))))) =
     [(''exp'', \<lparr>experiment_id = ''0'', artifact_location = ''file:///cwd/mlruns/0''\<rparr>)] \<and>
   fst (main_experiment_setup ''exp'' (registered_world ''s3://bucket/exp'')) =
     Inr (Some \<lparr>experiment_id = ''7'', artifact_location = ''s3://bucket/exp''\<rparr>) \<and>
   fst (main_experiment_setup ''exp''
          (restart ''file:///cwd/mlruns''
             (snd (main_experiment_setup ''exp'' (registered_world ''s3://bucket/exp''))))) =
     Inr (Some \<lparr>experiment_id = ''7'', artifact_location = ''s3://bucket/exp''\<rparr>) \<and>
   experiments (snd (main_experiment_setup ''exp''
          (restart ''file:///cwd/mlruns''
             (snd (main_experiment_setup ''exp'' (registered_world ''s3://bucket/exp'')))))) =
     experiments (registered_world ''s3://bucket/exp'')"
proof -
  let ?e0 = "\<lparr>experiment_id = ''0'', artifact_location = ''file:///cwd/mlruns/0''\<rparr>"
  let ?e7 = "\<lparr>experiment_id = ''7'', artifact_location = ''s3://bucket/exp''\<rparr>"
  let ?w1 = "restart ''file:///cwd/mlruns'' (snd (train_experiment_setup ''exp'' example_world))"
  let ?w2 = "restart ''file:///cwd/mlruns''
               (snd (main_experiment_setup ''exp'' (registered_world ''s3://bucket/exp'')))"
  have a: "experiments ?w1 = experiments (snd (train_experiment_setup ''exp'' example_world))"
    "experiments ?w2 = experiments (snd (main_experiment_setup ''exp'' (registered_world ''s3://bucket/exp'')))"
    by (simp_all add: restart_def)
  have b: "experiments (snd (train_experiment_setup ''exp'' example_world)) = [(''exp'', ?e0)]"
    by (simp add: train_experiment_setup_def io_defs op_defs example_world_def Let_def
        str_nat.simps digit_def)
  have c: "map_of (experiments (registered_world ''s3://bucket/exp'')) ''exp'' = Some ?e7"
    by (simp add: registered_world_def)
  from experiment_resolution_idempotent [of "''exp''" example_world ?w1]
  obtain e :: mlflow_experiment where t:
    "fst (train_experiment_setup ''exp'' example_world) = Inr (experiment_id e)"
    "map_of (experiments (snd (train_experiment_setup ''exp'' example_world))) ''exp'' = Some e"
    "experiments ?w1 = experiments (snd (train_experiment_setup ''exp'' example_world)) \<longrightarrow>
       map_of (experiments ?w1) ''exp'' = Some e \<and>
       fst (train_experiment_setup ''exp'' ?w1) = Inr (experiment_id e) \<and>
       experiments (snd (train_experiment_setup ''exp'' ?w1)) = experiments ?w1"
    by (elim exE conjE) (rule that; assumption)
  from t(2) b have e: "e = ?e0" by simp
  from experiment_resolution_idempotent [of "''exp''" "registered_world ''s3://bucket/exp''" ?w2]
  obtain e' :: mlflow_experiment where m:
    "fst (main_experiment_setup ''exp'' (registered_world ''s3://bucket/exp'')) = Inr (Some e')"
    "case map_of (experiments (registered_world ''s3://bucket/exp'')) ''exp'' of
       Some e0 \<Rightarrow> e' = e0 \<and>
         experiments (snd (main_experiment_setup ''exp'' (registered_world ''s3://bucket/exp''))) =
           experiments (registered_world ''s3://bucket/exp'')
     | None \<Rightarrow> experiment_id e' = str_nat (next_experiment (registered_world ''s3://bucket/exp'')) \<and>
         experiments (snd (main_experiment_setup ''exp'' (registered_world ''s3://bucket/exp''))) =
           experiments (registered_world ''s3://bucket/exp'') @ [(''exp'', e')]"
    "experiments ?w2 =
       experiments (snd (main_experiment_setup ''exp'' (registered_world ''s3://bucket/exp''))) \<longrightarrow>
       map_of (experiments ?w2) ''exp'' = Some e' \<and>
       fst (main_experiment_setup ''exp'' ?w2) = Inr (Some e') \<and>
       experiments (snd (main_experiment_setup ''exp'' ?w2)) = experiments ?w2"
    by (elim exE conjE) (rule that; assumption)
  from m(2) c have e': "e' = ?e7"
    and keep: "experiments (snd (main_experiment_setup ''exp'' (registered_world ''s3://bucket/exp''))) =
           experiments (registered_world ''s3://bucket/exp'')"
    by simp_all
  from a b t e m(1,3) e' keep show ?thesis by simp
qed

section \<open>Failing before the run\<close>







section \<open>The column types and the engine call\<close>

text \<open>
  Claim C4. Once the frame is loaded and the column-type file can be written, that file is
  written before the target is made categorical (the write is the call just before), and
  when the operation is over, however it ends, the file holds the types of the frame as it
  was loaded, not those of the frame after the conversion.
\<close>

theorem snapshot_before_factorization:
  "(files w fp = Some c \<and> writable env (path_join (dirname fp) ''train_col_types.json'') \<longrightarrow>
      files (snd (train env n t k fp w)) (path_join (dirname fp) ''train_col_types.json'') =
        Some (TypesJson (types (parse env c))) \<and>
      take 6 (new_events w (snd (train env n t k fp w))) =
        [MakeDirs mlruns_path, SetTrackingUri (''file:'' @ mlruns_path), H2OInit, ImportFile fp,
         WriteFile (path_join (dirname fp) ''train_col_types.json''), AsFactor t]) \<and>
   (files w train_csv = Some c \<and> writable env train_col_types_json \<longrightarrow>
      files (snd (main env n t k w)) train_col_types_json =
        Some (TypesJson (types (parse env c))) \<and>
      take 7 (new_events w (snd (main env n t k w))) =
        [H2OInit, CreateExperiment n, GetExperimentByName n, SetExperiment n,
         ImportFile train_csv, WriteFile train_col_types_json, AsFactor t])"
  using train_snapshot [of w fp c env n t k] main_snapshot [of w c env n t k] by blast

text \<open>The target \<open>claim\<close> is an \<open>int\<close> column: the file says \<open>int\<close>, while AutoML was given the
  column as \<open>enum\<close>.\<close>

theorem snapshot_before_factorization_witness:
  "files example_world ''data/train.csv'' = Some (Raw ''rows'') \<and>
   files example_world train_csv = Some (Raw ''rows'') \<and>
   files (snd (train example_env ''exp'' ''claim'' 5 ''data/train.csv'' example_world))
     ''data/train_col_types.json'' =
     Some (TypesJson [(''age'', ''int''), (''income'', ''real''), (''claim'', ''int'')]) \<and>
   files (snd (main example_env ''exp'' ''claim'' 5 example_world))
     ''data/processed/train_col_types.json'' =
     Some (TypesJson [(''age'', ''int''), (''income'', ''real''), (''claim'', ''int'')])"
proof -
  have h: "files example_world ''data/train.csv'' = Some (Raw ''rows'')"
    "files example_world train_csv = Some (Raw ''rows'')"
    "writable example_env (path_join (dirname ''data/train.csv'') ''train_col_types.json'')"
    "writable example_env train_col_types_json"
    "path_join (dirname ''data/train.csv'') ''train_col_types.json'' = ''data/train_col_types.json''"
    "train_col_types_json = ''data/processed/train_col_types.json''"
    "types (parse example_env (Raw ''rows'')) =
       [(''age'', ''int''), (''income'', ''real''), (''claim'', ''int'')]"
    by (simp_all add: example_world_def example_env_def path_defs types_def Let_def)
  from h
    snapshot_before_factorization
      [of example_world "''data/train.csv''" "Raw ''rows''" example_env "''exp''" "''claim''" 5]
  show ?thesis by simp
qed

text \<open>
  Claim C7. Every call of AutoML made by an operation has the fixed policy: at most
  \<open>models\<close> models, the seed 42, balanced classes, the ranking by \<open>logloss\<close>, and the
  algorithms \<open>GLM\<close> and \<open>DRF\<close> excluded; its response column is the target, and in the frame
  it is given the target is categorical.
\<close>

theorem engine_called_with_fixed_policy:
  "(AutoMLTrain pol x y f \<in> set (new_events w (snd (train env n t k fp w))) \<longrightarrow>
      max_models pol = k \<and> seed pol = 42 \<and> balance_classes pol \<and>
      sort_metric pol = ''logloss'' \<and> exclude_algos pol = [''GLM'', ''DRF''] \<and>
      y = t \<and> map_of (types f) t = Some ''enum'') \<and>
   (AutoMLTrain pol x y f \<in> set (new_events w (snd (main env n t k w))) \<longrightarrow>
      max_models pol = k \<and> seed pol = 42 \<and> balance_classes pol \<and>
      sort_metric pol = ''logloss'' \<and> exclude_algos pol = [''GLM'', ''DRF''] \<and>
      y = t \<and> map_of (types f) t = Some ''enum'')"
proof (intro conjI impI)
  assume "AutoMLTrain pol x y f \<in> set (new_events w (snd (train env n t k fp w)))"
  from train_engine_call [OF this] obtain c where
    "asfactor env t (parse env c) = Inr f" "pol = automl_policy k" "y = t"
    by blast
  then show "max_models pol = k" "seed pol = 42" "balance_classes pol"
    "sort_metric pol = ''logloss''" "exclude_algos pol = [''GLM'', ''DRF'']" "y = t"
    "map_of (types f) t = Some ''enum''"
    by (simp_all add: automl_policy_def types_def asfactor_enum)
next
  assume "AutoMLTrain pol x y f \<in> set (new_events w (snd (main env n t k w)))"
  from main_engine_call [OF this] obtain c where
    "asfactor env t (parse env c) = Inr f" "pol = automl_policy k" "y = t"
    by blast
  then show "max_models pol = k" "seed pol = 42" "balance_classes pol"
    "sort_metric pol = ''logloss''" "exclude_algos pol = [''GLM'', ''DRF'']" "y = t"
    "map_of (types f) t = Some ''enum''"
    by (simp_all add: automl_policy_def types_def asfactor_enum)
qed

theorem engine_called_with_fixed_policy_witness:
  "AutoMLTrain (automl_policy 5) [''age'', ''income''] ''claim''
      [(''age'', ''int''), (''income'', ''real''), (''claim'', ''enum'')]
     \<in> set (new_events example_world
              (snd (train example_env ''exp'' ''claim'' 5 ''data/train.csv'' example_world))) \<and>
   AutoMLTrain (automl_policy 5) [''age'', ''income''] ''claim''
      [(''age'', ''int''), (''income'', ''real''), (''claim'', ''enum'')]
     \<in> set (new_events example_world (snd (main example_env ''exp'' ''claim'' 5 example_world))) \<and>
   max_models (automl_policy 5) = 5 \<and> seed (automl_policy 5) = 42 \<and>
   exclude_algos (automl_policy 5) = [''GLM'', ''DRF''] \<and>
   map_of (types [(''age'', ''int''), (''income'', ''real''), (''claim'', ''enum'')]) ''claim'' =
     Some ''enum''"
proof -
  have a: "AutoMLTrain (automl_policy 5) [''age'', ''income''] ''claim''
      [(''age'', ''int''), (''income'', ''real''), (''claim'', ''enum'')]
     \<in> set (new_events example_world
              (snd (train example_env ''exp'' ''claim'' 5 ''data/train.csv'' example_world)))"
    by (simp add: eval_defs)
  have b: "AutoMLTrain (automl_policy 5) [''age'', ''income''] ''claim''
      [(''age'', ''int''), (''income'', ''real''), (''claim'', ''enum'')]
     \<in> set (new_events example_world (snd (main example_env ''exp'' ''claim'' 5 example_world)))"
    by (simp add: eval_defs)
  from a b
    engine_called_with_fixed_policy
      [of "automl_policy 5" "[''age'', ''income'']" "''claim''"
          "[(''age'', ''int''), (''income'', ''real''), (''claim'', ''enum'')]"
          example_world example_env "''exp''" "''claim''" 5 "''data/train.csv''"]
  show ?thesis by simp
qed

text \<open>
  Claim C9. In every call of AutoML made by an operation, the predictors are the columns of
  the frame it is given (which are the columns of the loaded frame) without the target, in
  the order of the frame; the response is the target.
\<close>

theorem predictors_are_columns_without_target:
  "(AutoMLTrain pol x y f \<in> set (new_events w (snd (train env n t k fp w))) \<longrightarrow>
      y = t \<and> x = removeAll t (col_names f) \<and>
      (\<exists>c. files w fp = Some c \<and> col_names f = col_names (parse env c))) \<and>
   (AutoMLTrain pol x y f \<in> set (new_events w (snd (main env n t k w))) \<longrightarrow>
      y = t \<and> x = removeAll t (col_names f) \<and>
      (\<exists>c. files w train_csv = Some c \<and> col_names f = col_names (parse env c)))"
proof (intro conjI impI)
  assume "AutoMLTrain pol x y f \<in> set (new_events w (snd (train env n t k fp w)))"
  from train_engine_call [OF this] obtain c where c: "files w fp = Some c"
    "asfactor env t (parse env c) = Inr f" "x = [m \<leftarrow> col_names (parse env c). m \<noteq> t]" "y = t"
    by blast
  from asfactor_names [OF c(2)] c
  show "y = t" "x = removeAll t (col_names f)"
    "\<exists>c. files w fp = Some c \<and> col_names f = col_names (parse env c)"
    by (simp_all add: removeAll_filter_not_eq) metis
next
  assume "AutoMLTrain pol x y f \<in> set (new_events w (snd (main env n t k w)))"
  from main_engine_call [OF this] obtain c where c: "files w train_csv = Some c"
    "asfactor env t (parse env c) = Inr f" "x = [m \<leftarrow> col_names (parse env c). m \<noteq> t]" "y = t"
    by blast
  from asfactor_names [OF c(2)] c
  show "y = t" "x = removeAll t (col_names f)"
    "\<exists>c. files w train_csv = Some c \<and> col_names f = col_names (parse env c)"
    by (simp_all add: removeAll_filter_not_eq) metis
qed

theorem predictors_are_columns_without_target_witness:
  "AutoMLTrain (automl_policy 5) [''age'', ''income''] ''claim''
      [(''age'', ''int''), (''income'', ''real''), (''claim'', ''enum'')]
     \<in> set (new_events example_world
              (snd (train example_env ''exp'' ''claim'' 5 ''data/train.csv'' example_world))) \<and>
   AutoMLTrain (automl_policy 5) [''age'', ''income''] ''claim''
      [(''age'', ''int''), (''income'', ''real''), (''claim'', ''enum'')]
     \<in> set (new_events example_world (snd (main example_env ''exp'' ''claim'' 5 example_world))) \<and>
   [''age'', ''income''] =
     removeAll ''claim'' (col_names [(''age'', ''int''), (''income'', ''real''), (''claim'', ''enum'')])"
proof -
  have a: "AutoMLTrain (automl_policy 5) [''age'', ''income''] ''claim''
      [(''age'', ''int''), (''income'', ''real''), (''claim'', ''enum'')]
     \<in> set (new_events example_world
              (snd (train example_env ''exp'' ''claim'' 5 ''data/train.csv'' example_world)))"
    by (simp add: eval_defs)
  have b: "AutoMLTrain (automl_policy 5) [''age'', ''income''] ''claim''
      [(''age'', ''int''), (''income'', ''real''), (''claim'', ''enum'')]
     \<in> set (new_events example_world (snd (main example_env ''exp'' ''claim'' 5 example_world)))"
    by (simp add: eval_defs)
  from a b
    predictors_are_columns_without_target
      [of "automl_policy 5" "[''age'', ''income'']" "''claim''"
          "[(''age'', ''int''), (''income'', ''real''), (''claim'', ''enum'')]"
          example_world example_env "''exp''" "''claim''" 5 "''data/train.csv''"]
  show ?thesis by simp
qed

section \<open>The run\<close>

text \<open>
  Claim C6. Whenever an operation has started a run \<open>r\<close>, on whatever path it leaves (a
  normal return, or an error of the training or of the publishing), it started no other
  run, it ended \<open>r\<close> exactly once, as its last call, with the status \<open>FINISHED\<close> when it
  returned and \<open>FAILED\<close> when it raised; the run is the last one of the store, it has that
  status there, and no run is left active.
\<close>

theorem run_closed_exactly_once:
  "(StartRun r \<in> set (new_events w (snd (train env n t k fp w))) \<longrightarrow>
      filter is_start_run (new_events w (snd (train env n t k fp w))) = [StartRun r] \<and>
      filter is_end_run (new_events w (snd (train env n t k fp w))) =
        [EndRun r (outcome_status (fst (train env n t k fp w)))] \<and>
      last (new_events w (snd (train env n t k fp w))) =
        EndRun r (outcome_status (fst (train env n t k fp w))) \<and>
      run_id (last (runs (snd (train env n t k fp w)))) = r \<and>
      status (last (runs (snd (train env n t k fp w)))) = outcome_status (fst (train env n t k fp w)) \<and>
      active_run (snd (train env n t k fp w)) = None) \<and>
   (StartRun r \<in> set (new_events w (snd (main env n t k w))) \<longrightarrow>
      filter is_start_run (new_events w (snd (main env n t k w))) = [StartRun r] \<and>
      filter is_end_run (new_events w (snd (main env n t k w))) =
        [EndRun r (outcome_status (fst (main env n t k w)))] \<and>
      last (new_events w (snd (main env n t k w))) =
        EndRun r (outcome_status (fst (main env n t k w))) \<and>
      run_id (last (runs (snd (main env n t k w)))) = r \<and>
      status (last (runs (snd (main env n t k w)))) = outcome_status (fst (main env n t k w)) \<and>
      active_run (snd (main env n t k w)) = None)"
proof (intro conjI impI)
  let ?T = "train env n t k fp w"
  assume started: "StartRun r \<in> set (new_events w (snd ?T))"
  from train_shape [of env n t k fp w] obtain pre where pre:
    "list_all (\<lambda>e. \<not> is_start_run e \<and> \<not> is_end_run e \<and> \<not> is_engine_call e) pre"
    and alt: "(\<exists>x. fst ?T = Inl x) \<and> new_events w (snd ?T) = pre \<and> runs (snd ?T) = runs w \<and>
        active_run (snd ?T) = active_run w
      \<or> (\<exists>es c f'. files w fp = Some c \<and> asfactor env t (parse env c) = Inr f' \<and>
           new_events w (snd ?T) =
             pre @ [StartRun (str_nat (next_run w))] @ es @
               [EndRun (str_nat (next_run w)) (outcome_status (fst ?T))] \<and>
           list_all (\<lambda>e. \<not> is_start_run e \<and> \<not> is_end_run e \<and>
              (is_engine_call e \<longrightarrow>
                 e = AutoMLTrain (automl_policy k) [m \<leftarrow> col_names (parse env c). m \<noteq> t] t f')) es \<and>
           runs (snd ?T) \<noteq> [] \<and> length (runs (snd ?T)) = Suc (length (runs w)) \<and>
           run_id (last (runs (snd ?T))) = str_nat (next_run w) \<and>
           status (last (runs (snd ?T))) = outcome_status (fst ?T) \<and>
           active_run (snd ?T) = None)"
    by (elim exE conjE) (rule that; assumption)
  from started not_started(1) [OF pre] alt
  obtain es c f' where s:
    "new_events w (snd ?T) =
       pre @ [StartRun (str_nat (next_run w))] @ es @
         [EndRun (str_nat (next_run w)) (outcome_status (fst ?T))]"
    "list_all (\<lambda>e. \<not> is_start_run e \<and> \<not> is_end_run e \<and>
        (is_engine_call e \<longrightarrow>
           e = AutoMLTrain (automl_policy k) [m \<leftarrow> col_names (parse env c). m \<noteq> t] t f')) es"
    "run_id (last (runs (snd ?T))) = str_nat (next_run w)"
    "status (last (runs (snd ?T))) = outcome_status (fst ?T)"
    "active_run (snd ?T) = None"
    by auto
  note c = closed_once [OF pre s(2) s(1) started]
  from c s
  show "filter is_start_run (new_events w (snd ?T)) = [StartRun r]"
    and "filter is_end_run (new_events w (snd ?T)) = [EndRun r (outcome_status (fst ?T))]"
    and "last (new_events w (snd ?T)) = EndRun r (outcome_status (fst ?T))"
    and "run_id (last (runs (snd ?T))) = r"
    and "status (last (runs (snd ?T))) = outcome_status (fst ?T)"
    and "active_run (snd ?T) = None"
    by simp_all
next
  let ?T = "main env n t k w"
  assume started: "StartRun r \<in> set (new_events w (snd ?T))"
  from main_shape [of env n t k w] obtain pre where pre:
    "list_all (\<lambda>e. \<not> is_start_run e \<and> \<not> is_end_run e \<and> \<not> is_engine_call e) pre"
    and alt: "(\<exists>x. fst ?T = Inl x) \<and> new_events w (snd ?T) = pre \<and> runs (snd ?T) = runs w \<and>
        active_run (snd ?T) = active_run w
      \<or> (\<exists>es c f'. files w train_csv = Some c \<and> asfactor env t (parse env c) = Inr f' \<and>
           new_events w (snd ?T) =
             pre @ [StartRun (str_nat (next_run w))] @ es @
               [EndRun (str_nat (next_run w)) (outcome_status (fst ?T))] \<and>
           list_all (\<lambda>e. \<not> is_start_run e \<and> \<not> is_end_run e \<and>
              (is_engine_call e \<longrightarrow>
                 e = AutoMLTrain (automl_policy k) [m \<leftarrow> col_names (parse env c). m \<noteq> t] t f')) es \<and>
           runs (snd ?T) \<noteq> [] \<and> length (runs (snd ?T)) = Suc (length (runs w)) \<and>
           run_id (last (runs (snd ?T))) = str_nat (next_run w) \<and>
           status (last (runs (snd ?T))) = outcome_status (fst ?T) \<and>
           active_run (snd ?T) = None)"
    by (elim exE conjE) (rule that; assumption)
  from started not_started(1) [OF pre] alt
  obtain es c f' where s:
    "new_events w (snd ?T) =
       pre @ [StartRun (str_nat (next_run w))] @ es @
         [EndRun (str_nat (next_run w)) (outcome_status (fst ?T))]"
    "list_all (\<lambda>e. \<not> is_start_run e \<and> \<not> is_end_run e \<and>
        (is_engine_call e \<longrightarrow>
           e = AutoMLTrain (automl_policy k) [m \<leftarrow> col_names (parse env c). m \<noteq> t] t f')) es"
    "run_id (last (runs (snd ?T))) = str_nat (next_run w)"
    "status (last (runs (snd ?T))) = outcome_status (fst ?T)"
    "active_run (snd ?T) = None"
    by auto
  note c = closed_once [OF pre s(2) s(1) started]
  from c s
  show "filter is_start_run (new_events w (snd ?T)) = [StartRun r]"
    and "filter is_end_run (new_events w (snd ?T)) = [EndRun r (outcome_status (fst ?T))]"
    and "last (new_events w (snd ?T)) = EndRun r (outcome_status (fst ?T))"
    and "run_id (last (runs (snd ?T))) = r"
    and "status (last (runs (snd ?T))) = outcome_status (fst ?T)"
    and "active_run (snd ?T) = None"
    by simp_all
qed

text \<open>A training that fails inside the run of \<open>train\<close>, and a \<open>main\<close> that succeeds.\<close>

theorem run_closed_exactly_once_witness:
  "StartRun ''0'' \<in> set (new_events example_world
      (snd (train failing_env ''exp'' ''claim'' 5 ''data/train.csv'' example_world))) \<and>
   fst (train failing_env ''exp'' ''claim'' 5 ''data/train.csv'' example_world) = Inl TrainingError \<and>
   last (new_events example_world
      (snd (train failing_env ''exp'' ''claim'' 5 ''data/train.csv'' example_world))) =
     EndRun ''0'' FAILED \<and>
   status (last (runs (snd (train failing_env ''exp'' ''claim'' 5 ''data/train.csv'' example_world)))) =
     FAILED \<and>
   StartRun ''0'' \<in> set (new_events example_world (snd (main example_env ''exp'' ''claim'' 5 example_world))) \<and>
   fst (main example_env ''exp'' ''claim'' 5 example_world) = Inr () \<and>
   status (last (runs (snd (main example_env ''exp'' ''claim'' 5 example_world)))) = FINISHED"
proof -
  have a: "StartRun ''0'' \<in> set (new_events example_world
      (snd (train failing_env ''exp'' ''claim'' 5 ''data/train.csv'' example_world)))"
    by (simp add: eval_defs)
  have b: "fst (train failing_env ''exp'' ''claim'' 5 ''data/train.csv'' example_world) = Inl TrainingError"
    by (simp add: eval_defs)
  have c: "StartRun ''0'' \<in> set (new_events example_world
      (snd (main example_env ''exp'' ''claim'' 5 example_world)))"
    by (simp add: eval_defs)
  have d: "fst (main example_env ''exp'' ''claim'' 5 example_world) = Inr ()"
    by (simp add: eval_defs)
  from a b c d
    run_closed_exactly_once
      [of "''0''" example_world failing_env "''exp''" "''claim''" 5 "''data/train.csv''"]
    run_closed_exactly_once
      [of "''0''" example_world example_env "''exp''" "''claim''" 5 "''data/train.csv''"]
  show ?thesis by (simp add: outcome_status_def)
qed

section \<open>What a successful run leaves\<close>

text \<open>
  Claim C5, as the code has it. In a successful run the leaderboard is written after the
  model is logged: before the two calls that log the model and ask the store for its URI
  nothing is exported. \<open>train\<close> derives the path from the URI \<open>u/model\<close> the store
  answers for the run: it removes \<open>file:\<close> from it and joins \<open>leaderboard.csv\<close>, and it
  exports only when that URI begins with \<open>file:/\<close>. \<open>main\<close> does not use the URI: it
  writes to \<open>mlruns/{exp_id}/{run_id}/artifacts/model/leaderboard.csv\<close>, built from the
  identifiers of the experiment and of the run.
\<close>

theorem leaderboard_written_after_model:
  "(fst (train env n t k fp w) = Inr () \<longrightarrow>
      (\<exists>pre u. run_artifact_uri (snd (train env n t k fp w)) (str_nat (next_run w)) = Some u \<and>
         filter is_csv_write pre = [] \<and>
         new_events w (snd (train env n t k fp w)) =
           pre @ [LogModel ''model'', GetArtifactUri ''model''] @
             (if prefix ''file:/'' (u @ ''/model'')
              then [MakeDirs (replace ''file:'' [] (u @ ''/model'')),
                    ToCsv (path_join (replace ''file:'' [] (u @ ''/model'')) ''leaderboard.csv'')]
              else []) @
             [EndRun (str_nat (next_run w)) FINISHED])) \<and>
   (fst (main env n t k w) = Inr () \<longrightarrow>
      (\<exists>pre e. map_of (experiments (snd (main env n t k w))) n = Some e \<and>
         filter is_csv_write pre = [] \<and>
         new_events w (snd (main env n t k w)) =
           pre @ [LogModel ''model'', GetArtifactUri ''model'',
                  ToCsv (''mlruns/'' @ experiment_id e @ ''/'' @ str_nat (next_run w) @
                         ''/artifacts/model/leaderboard.csv''),
                  EndRun (str_nat (next_run w)) FINISHED]))"
proof (intro conjI impI)
  let ?T = "train env n t k fp w"
  let ?rid = "str_nat (next_run w)"
  let ?ctp = "path_join (dirname fp) ''train_col_types.json''"
  assume "fst ?T = Inr ()"
  from train_success [OF this] obtain c f' and m :: model and u pre where s:
    "run_artifact_uri (snd ?T) ?rid = Some u"
    "set pre \<subseteq>
       {MakeDirs mlruns_path, SetTrackingUri (''file:'' @ mlruns_path), H2OInit, ImportFile fp,
        WriteFile ?ctp, AsFactor t, CreateExperiment n, GetExperimentByName n, SetExperiment n}"
    "new_events w (snd ?T) =
       pre @ [StartRun ?rid, LogArtifact fp ''input_data'', LogArtifact ?ctp ''input_data'',
              AutoMLTrain (automl_policy k) [x \<leftarrow> col_names (parse env c). x \<noteq> t] t f',
              LogMetric ''log_loss'' (logloss m), LogMetric ''AUC'' (auc m),
              LogModel ''model'', GetArtifactUri ''model''] @
         (if prefix ''file:/'' (u @ ''/model'')
          then [MakeDirs (replace ''file:'' [] (u @ ''/model'')),
                ToCsv (path_join (replace ''file:'' [] (u @ ''/model'')) ''leaderboard.csv'')]
          else []) @
         [EndRun ?rid FINISHED]"
    by (elim exE conjE) (rule that; assumption)
  let ?pre = "pre @ [StartRun ?rid, LogArtifact fp ''input_data'', LogArtifact ?ctp ''input_data'',
              AutoMLTrain (automl_policy k) [x \<leftarrow> col_names (parse env c). x \<noteq> t] t f',
              LogMetric ''log_loss'' (logloss m), LogMetric ''AUC'' (auc m)]"
  have "filter is_csv_write ?pre = []"
    using no_csv_in_setup(1) [OF s(2)] by simp
  with s(1,3)
  show "\<exists>pre u. run_artifact_uri (snd ?T) ?rid = Some u \<and> filter is_csv_write pre = [] \<and>
         new_events w (snd ?T) =
           pre @ [LogModel ''model'', GetArtifactUri ''model''] @
             (if prefix ''file:/'' (u @ ''/model'')
              then [MakeDirs (replace ''file:'' [] (u @ ''/model'')),
                    ToCsv (path_join (replace ''file:'' [] (u @ ''/model'')) ''leaderboard.csv'')]
              else []) @
             [EndRun ?rid FINISHED]"
    by (intro exI [of _ ?pre] exI [of _ u]) simp
next
  let ?T = "main env n t k w"
  let ?rid = "str_nat (next_run w)"
  assume "fst ?T = Inr ()"
  from main_success [OF this] obtain c f' and m :: model and e where s:
    "map_of (experiments (snd ?T)) n = Some e"
    "new_events w (snd ?T) =
       [H2OInit, CreateExperiment n, GetExperimentByName n, SetExperiment n,
        ImportFile train_csv, WriteFile train_col_types_json, AsFactor t, StartRun ?rid,
        AutoMLTrain (automl_policy k) [x \<leftarrow> col_names (parse env c). x \<noteq> t] t f',
        LogMetric ''log_loss'' (logloss m), LogMetric ''AUC'' (auc m),
        LogModel ''model'', GetArtifactUri ''model'',
        ToCsv (''mlruns/'' @ experiment_id e @ ''/'' @ ?rid @ ''/artifacts/model/leaderboard.csv''),
        EndRun ?rid FINISHED]"
    by (elim exE conjE) (rule that; assumption)
  let ?pre = "[H2OInit, CreateExperiment n, GetExperimentByName n, SetExperiment n,
        ImportFile train_csv, WriteFile train_col_types_json, AsFactor t, StartRun ?rid,
        AutoMLTrain (automl_policy k) [x \<leftarrow> col_names (parse env c). x \<noteq> t] t f',
        LogMetric ''log_loss'' (logloss m), LogMetric ''AUC'' (auc m)]"
  have "filter is_csv_write ?pre = []" by simp
  with s
  show "\<exists>pre e. map_of (experiments (snd ?T)) n = Some e \<and> filter is_csv_write pre = [] \<and>
         new_events w (snd ?T) =
           pre @ [LogModel ''model'', GetArtifactUri ''model'',
                  ToCsv (''mlruns/'' @ experiment_id e @ ''/'' @ ?rid @
                         ''/artifacts/model/leaderboard.csv''),
                  EndRun ?rid FINISHED]"
    by (intro exI [of _ ?pre] exI [of _ e]) simp
qed

theorem leaderboard_written_after_model_witness:
  "fst (train example_env ''exp'' ''claim'' 5 ''data/train.csv'' example_world) = Inr () \<and>
   fst (main example_env ''exp'' ''claim'' 5 example_world) = Inr () \<and>
   (\<exists>pre u. run_artifact_uri
         (snd (train example_env ''exp'' ''claim'' 5 ''data/train.csv'' example_world))
         (str_nat (next_run example_world)) = Some u \<and>
      filter is_csv_write pre = [] \<and>
      new_events example_world
         (snd (train example_env ''exp'' ''claim'' 5 ''data/train.csv'' example_world)) =
        pre @ [LogModel ''model'', GetArtifactUri ''model''] @
          (if prefix ''file:/'' (u @ ''/model'')
           then [MakeDirs (replace ''file:'' [] (u @ ''/model'')),
                 ToCsv (path_join (replace ''file:'' [] (u @ ''/model'')) ''leaderboard.csv'')]
           else []) @
          [EndRun (str_nat (next_run example_world)) FINISHED]) \<and>
   filter is_csv_write (new_events example_world
       (snd (train example_env ''exp'' ''claim'' 5 ''data/train.csv'' example_world))) =
     [ToCsv ''/app/backend/mlruns/0/0/artifacts/model/leaderboard.csv'']"
proof -
  have a: "fst (train example_env ''exp'' ''claim'' 5 ''data/train.csv'' example_world) = Inr ()"
    by (simp add: eval_defs)
  have b: "fst (main example_env ''exp'' ''claim'' 5 example_world) = Inr ()"
    by (simp add: eval_defs)
  have c: "filter is_csv_write (new_events example_world
       (snd (train example_env ''exp'' ''claim'' 5 ''data/train.csv'' example_world))) =
     [ToCsv ''/app/backend/mlruns/0/0/artifacts/model/leaderboard.csv'']"
    by (simp add: eval_defs)
  from a b c
    leaderboard_written_after_model
      [of example_env "''exp''" "''claim''" 5 "''data/train.csv''" example_world]
  show ?thesis by blast
qed

text \<open>Claim C5 as stated fails for \<open>main\<close>: for an experiment whose artifacts are kept at
  \<open>s3://bucket/exp\<close>, and for one that keeps them at \<open>file:/srv/store/exp\<close>, the store
  answers different locations, and the leaderboard goes to the same interpolated path.\<close>

theorem leaderboard_path_counterexample:
  "fst (main example_env ''exp'' ''claim'' 5 (registered_world ''s3://bucket/exp'')) = Inr () \<and>
   run_artifact_uri (snd (main example_env ''exp'' ''claim'' 5 (registered_world ''s3://bucket/exp'')))
     ''0'' = Some ''s3://bucket/exp/0/artifacts'' \<and>
   filter is_csv_write
     (trace (snd (main example_env ''exp'' ''claim'' 5 (registered_world ''s3://bucket/exp'')))) =
     [ToCsv ''mlruns/7/0/artifacts/model/leaderboard.csv''] \<and>
   run_artifact_uri (snd (main example_env ''exp'' ''claim'' 5 (registered_world ''file:/srv/store/exp'')))
     ''0'' = Some ''file:/srv/store/exp/0/artifacts'' \<and>
   filter is_csv_write
     (trace (snd (main example_env ''exp'' ''claim'' 5 (registered_world ''file:/srv/store/exp'')))) =
     [ToCsv ''mlruns/7/0/artifacts/model/leaderboard.csv'']"
  by (simp add: eval_defs)




text \<open>
  Claim C10. In \<open>train\<close>, once the store has been asked for the URI of the model and the
  URI \<open>u/model\<close> it answers does not begin with \<open>file:/\<close>, the operation returns without an
  error, no leaderboard is exported (the files are those left by the loading step), and
  the run is ended as \<open>FINISHED\<close>.
\<close>

theorem non_file_uri_skips_leaderboard:
  "GetArtifactUri ''model'' \<in> set (new_events w (snd (train env n t k fp w))) \<and>
   run_artifact_uri (snd (train env n t k fp w)) (str_nat (next_run w)) = Some u \<and>
   \<not> prefix ''file:/'' (u @ ''/model'') \<longrightarrow>
     fst (train env n t k fp w) = Inr () \<and>
     filter is_csv_write (new_events w (snd (train env n t k fp w))) = [] \<and>
     last (new_events w (snd (train env n t k fp w))) = EndRun (str_nat (next_run w)) FINISHED \<and>
     status (last (runs (snd (train env n t k fp w)))) = FINISHED \<and>
     (\<exists>c. files w fp = Some c \<and>
          files (snd (train env n t k fp w)) =
            (files w)(path_join (dirname fp) ''train_col_types.json'' \<mapsto>
                        TypesJson (types (parse env c))))"
  using train_skip [of w env n t k fp u] by blast

text \<open>The experiment \<open>exp\<close> keeps its artifacts at \<open>s3://bucket/exp\<close>.\<close>

theorem non_file_uri_skips_leaderboard_witness:
  "GetArtifactUri ''model''
     \<in> set (new_events (registered_world ''s3://bucket/exp'')
         (snd (train example_env ''exp'' ''claim'' 5 ''data/train.csv''
                 (registered_world ''s3://bucket/exp'')))) \<and>
   run_artifact_uri
     (snd (train example_env ''exp'' ''claim'' 5 ''data/train.csv'' (registered_world ''s3://bucket/exp'')))
     (str_nat (next_run (registered_world ''s3://bucket/exp''))) = Some ''s3://bucket/exp/0/artifacts'' \<and>
   \<not> prefix ''file:/'' (''s3://bucket/exp/0/artifacts'' @ ''/model'') \<and>
   fst (train example_env ''exp'' ''claim'' 5 ''data/train.csv'' (registered_world ''s3://bucket/exp'')) =
     Inr () \<and>
   filter is_csv_write
     (new_events (registered_world ''s3://bucket/exp'')
        (snd (train example_env ''exp'' ''claim'' 5 ''data/train.csv''
                (registered_world ''s3://bucket/exp'')))) = [] \<and>
   status (last (runs (snd (train example_env ''exp'' ''claim'' 5 ''data/train.csv''
                             (registered_world ''s3://bucket/exp''))))) = FINISHED"
proof -
  have a: "GetArtifactUri ''model''
     \<in> set (new_events (registered_world ''s3://bucket/exp'')
         (snd (train example_env ''exp'' ''claim'' 5 ''data/train.csv''
                 (registered_world ''s3://bucket/exp''))))"
    by (simp add: eval_defs)
  have b: "run_artifact_uri
     (snd (train example_env ''exp'' ''claim'' 5 ''data/train.csv'' (registered_world ''s3://bucket/exp'')))
     (str_nat (next_run (registered_world ''s3://bucket/exp''))) = Some ''s3://bucket/exp/0/artifacts''"
    by (simp add: eval_defs)
  have c: "\<not> prefix ''file:/'' (''s3://bucket/exp/0/artifacts'' @ ''/model'')"
    by simp
  from a b c
    non_file_uri_skips_leaderboard
      [of "registered_world ''s3://bucket/exp''" example_env "''exp''" "''claim''" 5
          "''data/train.csv''" "''s3://bucket/exp/0/artifacts''"]
  show ?thesis by blast
qed


end
